theory Spec2Isabelle
  imports Complex_Main
begin

section \<open>JavaScript values\<close>

text \<open>
  The values \<^verbatim>\<open>JSON.parse\<close> can produce, hence the values \<^verbatim>\<open>jwtDecode\<close> returns
  and the values of the claims \<^verbatim>\<open>exp\<close>, \<^verbatim>\<open>nbf\<close> and \<^verbatim>\<open>error\<close>. Numbers are exact
  rationals: the rounding of IEEE doubles is not modelled. An object is the association
  list of its own properties; the first entry of a name is the one that is read.
\<close>

datatype json =
    JNull
  | JBool bool
  | JNum rat
  | JStr string
  | JArr "json list"
  | JObj "(string \<times> json) list"

text \<open>
  What the plugin can raise: \<^verbatim>\<open>new Error(message)\<close>, the \<^verbatim>\<open>TypeError\<close> of reading a
  property of \<^verbatim>\<open>null\<close>, and the \<^verbatim>\<open>InvalidTokenError\<close> of \<^verbatim>\<open>jwtDecode\<close>.
\<close>

datatype js_error = Error string | TypeError | InvalidTokenError

text \<open>
  An argument of \<^verbatim>\<open>run\<close> and a value read from the store is a string or is absent
  (\<^verbatim>\<open>undefined\<close>, \<^verbatim>\<open>null\<close>): the template tag declares every argument as a string.
  \<^verbatim>\<open>!x\<close> holds for the absent value and for the empty string.
\<close>

fun truthy :: "string option \<Rightarrow> bool" where
  "truthy None = False"
| "truthy (Some s) = (s \<noteq> [])"

text \<open>Truthiness of a property read off a decoded payload (\<open>None\<close> is \<^verbatim>\<open>undefined\<close>).\<close>

fun truthy_json :: "json option \<Rightarrow> bool" where
  "truthy_json None = False"
| "truthy_json (Some JNull) = False"
| "truthy_json (Some (JBool b)) = b"
| "truthy_json (Some (JNum r)) = (r \<noteq> 0)"
| "truthy_json (Some (JStr s)) = (s \<noteq> [])"
| "truthy_json (Some (JArr xs)) = True"
| "truthy_json (Some (JObj kvs)) = True"

text \<open>
  \<^verbatim>\<open>data.exp\<close>, \<^verbatim>\<open>data.nbf\<close>, \<^verbatim>\<open>data.error\<close>: reading a property of \<^verbatim>\<open>null\<close> raises,
  an object gives its own property or \<^verbatim>\<open>undefined\<close>, and every other value has no
  property of these names.
\<close>

fun getProp :: "json \<Rightarrow> string \<Rightarrow> js_error + json option" where
  "getProp JNull k = Inl TypeError"
| "getProp (JObj kvs) k = Inr (map_of kvs k)"
| "getProp (JBool b) k = Inr None"
| "getProp (JNum r) k = Inr None"
| "getProp (JStr s) k = Inr None"
| "getProp (JArr xs) k = Inr None"

section \<open>The libraries and the host\<close>

text \<open>The session \<^verbatim>\<open>authenticateUser\<close> resolves with: its two tokens.\<close>

record session =
  getIdToken :: string
  getAccessToken :: string

text \<open>The bytes a crypto-js word array holds: a \<open>char\<close> is a byte.\<close>

type_synonym WordArray = "char list"

text \<open>
  The third-party code the plugin calls, as parameters of the model:
  \<^item> \<open>jwtDecode\<close> (jwt-decode): the parsed payload segment, \<open>None\<close> when it throws;
  \<^item> \<open>coerce\<close>: the language's conversion to a number of a string, and of an array
    that can be joined into a string (\<open>None\<close> is \<^verbatim>\<open>NaN\<close>);
  \<^item> \<open>JSON_stringify\<close>, \<open>Utf8_parse\<close>, \<open>Base64_stringify\<close> (crypto-js);
  \<^item> \<open>authenticateUser\<close> (amazon-cognito-identity-js): the handshake of
    \<^verbatim>\<open>cognitoAuth\<close> for a user pool id, a client id, a user name and a password, with
    the construction of the pool and of the user; \<open>Inl\<close> is the message of the error
    it fails with.
\<close>

record jslib =
  jwtDecode :: "string \<Rightarrow> json option"
  coerce :: "json \<Rightarrow> rat option"
  JSON_stringify :: "json \<Rightarrow> string"
  Utf8_parse :: "string \<Rightarrow> WordArray"
  Base64_stringify :: "WordArray \<Rightarrow> string"
  authenticateUser ::
    "string option \<Rightarrow> string option \<Rightarrow> string option \<Rightarrow> string option \<Rightarrow> string + session"

text \<open>The object \<^verbatim>\<open>cognitoAuth\<close> receives.\<close>

record authData =
  Username :: "string option"
  Password :: "string option"
  Region :: "string option"
  ClientId :: "string option"
  UserPoolId :: "string option"
  TokenType :: "string option"
  ClientSecret :: "string option"

text \<open>What a call does to its surroundings, in order.\<close>

datatype event =
    GetItem string
  | SetItem string string
  | Authenticate authData

text \<open>
  The surroundings of a call: the host's store (\<^verbatim>\<open>context.store\<close>), the calls made so
  far, and the clock: \<open>clock w n\<close> is what the \<open>n\<close>-th reading of \<^verbatim>\<open>Date.now()\<close>
  returns (milliseconds), \<open>reads w\<close> the number of readings made so far. The store
  is a map that never fails: \<^verbatim>\<open>getItem\<close> gives the string last set under a key, or
  nothing, and the calls of one \<^verbatim>\<open>run\<close> are awaited one after the other.
\<close>

record world =
  store :: "string \<rightharpoonup> string"
  trace :: "event list"
  clock :: "nat \<Rightarrow> int"
  reads :: nat

definition Date_now :: "world \<Rightarrow> int \<times> world" where
  "Date_now w = (clock w (reads w), w\<lparr>reads := Suc (reads w)\<rparr>)"

definition getItem :: "string \<Rightarrow> world \<Rightarrow> string option \<times> world" where
  "getItem key w = (store w key, w\<lparr>trace := trace w @ [GetItem key]\<rparr>)"

definition setItem :: "string \<Rightarrow> string \<Rightarrow> world \<Rightarrow> world" where
  "setItem key v w = w\<lparr>store := (store w)(key \<mapsto> v), trace := trace w @ [SetItem key v]\<rparr>"

section \<open>The plugin\<close>

subsection \<open>cognitoAuth\<close>

definition cognitoAuth :: "jslib \<Rightarrow> authData \<Rightarrow> world \<Rightarrow> (string + string) \<times> world" where
  "cognitoAuth L a w =
     (let w' = w\<lparr>trace := trace w @ [Authenticate a]\<rparr> in
      case authenticateUser L (UserPoolId a) (ClientId a) (Username a) (Password a) of
        Inl message \<Rightarrow> (Inl message, w')
      | Inr authUser \<Rightarrow>
          if TokenType a = Some ''id'' then (Inr (getIdToken authUser), w')
          else (Inr (getAccessToken authUser), w'))"

subsection \<open>validToken\<close>

text \<open>
  The language's conversion of a value to a primitive throws a \<^verbatim>\<open>TypeError\<close> on an
  object with a property \<^verbatim>\<open>toString\<close> of its own: what \<^verbatim>\<open>JSON.parse\<close> built is never
  callable, and the inherited \<^verbatim>\<open>valueOf\<close> returns the object itself. An object without
  it converts to \<^verbatim>\<open>[object Object]\<close>. An array is joined, which converts each element
  to a string, so it throws when an element does.
\<close>

fun ToPrimitive_throws :: "json \<Rightarrow> bool" where
  "ToPrimitive_throws (JObj kvs) = (map_of kvs ''toString'' \<noteq> None)"
| "ToPrimitive_throws (JArr xs) = (\<exists>x \<in> set xs. ToPrimitive_throws x)"
| "ToPrimitive_throws JNull = False"
| "ToPrimitive_throws (JBool b) = False"
| "ToPrimitive_throws (JNum r) = False"
| "ToPrimitive_throws (JStr s) = False"

text \<open>
  The language's conversion to a number, \<open>Inl\<close> when it throws: a number is itself,
  \<^verbatim>\<open>null\<close> is 0, \<^verbatim>\<open>true\<close> is 1, \<^verbatim>\<open>false\<close> is 0, \<^verbatim>\<open>[object Object]\<close> is
  \<^verbatim>\<open>NaN\<close>; a string and a joined array go through the library.
\<close>

fun ToNumber :: "jslib \<Rightarrow> json \<Rightarrow> js_error + rat option" where
  "ToNumber L (JNum r) = Inr (Some r)"
| "ToNumber L JNull = Inr (Some 0)"
| "ToNumber L (JBool b) = Inr (Some (if b then 1 else 0))"
| "ToNumber L (JStr s) = Inr (coerce L (JStr s))"
| "ToNumber L (JArr xs) =
     (if ToPrimitive_throws (JArr xs) then Inl TypeError else Inr (coerce L (JArr xs)))"
| "ToNumber L (JObj kvs) =
     (if ToPrimitive_throws (JObj kvs) then Inl TypeError else Inr None)"

text \<open>
  \<^verbatim>\<open>v < now\<close> and \<^verbatim>\<open>v > now\<close> for a number \<open>now\<close>: they throw when the conversion of
  \<open>v\<close> does, and are false when \<open>v\<close> converts to \<^verbatim>\<open>NaN\<close>.
\<close>

definition js_lt :: "jslib \<Rightarrow> json \<Rightarrow> rat \<Rightarrow> js_error + bool" where
  "js_lt L v now =
     (case ToNumber L v of
        Inl e \<Rightarrow> Inl e
      | Inr None \<Rightarrow> Inr False
      | Inr (Some x) \<Rightarrow> Inr (x < now))"

definition js_gt :: "jslib \<Rightarrow> json \<Rightarrow> rat \<Rightarrow> js_error + bool" where
  "js_gt L v now =
     (case ToNumber L v of
        Inl e \<Rightarrow> Inl e
      | Inr None \<Rightarrow> Inr False
      | Inr (Some x) \<Rightarrow> Inr (x > now))"

text \<open>The body of the \<^verbatim>\<open>try\<close> block of \<^verbatim>\<open>validToken\<close>; \<open>Inl\<close> is what it throws.\<close>

definition validToken_try :: "jslib \<Rightarrow> rat \<Rightarrow> string \<Rightarrow> js_error + bool" where
  "validToken_try L now token =
     (case jwtDecode L token of
        None \<Rightarrow> Inl InvalidTokenError
      | Some data \<Rightarrow>
          (case getProp data ''exp'' of
             Inl e \<Rightarrow> Inl e
           | Inr data_exp \<Rightarrow>
               (case (case data_exp of None \<Rightarrow> Inr False | Some v \<Rightarrow> js_lt L v now) of
                  Inl e \<Rightarrow> Inl e
                | Inr expired \<Rightarrow>
                    if expired then Inr False
                    else
                      (case getProp data ''nbf'' of
                         Inl e \<Rightarrow> Inl e
                       | Inr data_nbf \<Rightarrow>
                           (case (case data_nbf of None \<Rightarrow> Inr False
                                  | Some v \<Rightarrow> js_gt L v now) of
                              Inl e \<Rightarrow> Inl e
                            | Inr early \<Rightarrow> if early then Inr False else Inr True)))))"

definition validToken :: "jslib \<Rightarrow> string \<Rightarrow> world \<Rightarrow> bool \<times> world" where
  "validToken L token w =
     (let (ms, w') = Date_now w;
          now = of_int ms / 1000
      in case validToken_try L now token of
           Inl err \<Rightarrow> (False, w')
         | Inr b \<Rightarrow> (b, w'))"

subsection \<open>base64url and errorToken\<close>

definition base64url :: "jslib \<Rightarrow> WordArray \<Rightarrow> string" where
  "base64url L source =
     (let encodedSource = Base64_stringify L source;
          encodedSource = rev (dropWhile (\<lambda>c. c = CHR ''='') (rev encodedSource));
          encodedSource = map (\<lambda>c. if c = CHR ''+'' then CHR ''-'' else c) encodedSource;
          encodedSource = map (\<lambda>c. if c = CHR ''/'' then CHR ''_'' else c) encodedSource
      in encodedSource)"

definition errorToken :: "jslib \<Rightarrow> string \<Rightarrow> world \<Rightarrow> string \<times> world" where
  "errorToken L error w =
     (let header = JObj [(''alg'', JStr ''HS256''), (''typ'', JStr ''JWT'')];
          stringifiedHeader = Utf8_parse L (JSON_stringify L header);
          encodedHeader = base64url L stringifiedHeader;
          (ms, w') = Date_now w;
          exp = of_int ms / 1000 + 60;
          data = JObj [(''error'', JStr error), (''exp'', JNum exp)];
          stringifiedData = Utf8_parse L (JSON_stringify L data);
          encodedData = base64url L stringifiedData
      in (encodedHeader @ ''.'' @ encodedData, w'))"

subsection \<open>run\<close>

text \<open>\<^verbatim>\<open>Array.prototype.join\<close>: an absent element is joined as the empty string.\<close>

fun fieldStr :: "string option \<Rightarrow> string" where
  "fieldStr None = []"
| "fieldStr (Some s) = s"

fun js_join :: "string \<Rightarrow> string option list \<Rightarrow> string" where
  "js_join sep [] = []"
| "js_join sep [x] = fieldStr x"
| "js_join sep (x # y # r) = fieldStr x @ sep @ js_join sep (y # r)"

text \<open>The default of the token type, and the key, as \<^verbatim>\<open>run\<close> computes them.\<close>

definition defaultTokenType :: "string option \<Rightarrow> string option" where
  "defaultTokenType tokenType = (if \<not> truthy tokenType then Some ''access'' else tokenType)"

definition cacheKey ::
  "string option \<Rightarrow> string option \<Rightarrow> string option \<Rightarrow> string option \<Rightarrow> string option \<Rightarrow>
   string option \<Rightarrow> string option \<Rightarrow> string" where
  "cacheKey username password region clientId userPoolId tokenType clientSecret =
     js_join ''::'' [username, password, region, clientId, userPoolId, tokenType, clientSecret]"

text \<open>
  The result of \<^verbatim>\<open>run\<close> is \<open>Inl\<close> of what it throws or \<open>Inr\<close> of the value it resolves
  with: a string (\<open>JStr\<close>), or the \<^verbatim>\<open>error\<close> claim of a cached payload as it is.
\<close>

definition run ::
  "jslib \<Rightarrow> world \<Rightarrow> string option \<Rightarrow> string option \<Rightarrow> string option \<Rightarrow> string option \<Rightarrow>
   string option \<Rightarrow> string option \<Rightarrow> string option \<Rightarrow> (js_error + json) \<times> world" where
  "run L w username password region clientId userPoolId tokenType clientSecret =
     (if \<not> truthy username then (Inl (Error ''Username attribute is required''), w)
      else if \<not> truthy password then (Inl (Error ''Password attribute is required''), w)
      else if \<not> truthy region then (Inl (Error ''Region attribute is required''), w)
      else if \<not> truthy clientId then (Inl (Error ''ClientId attribute is required''), w)
      else if \<not> truthy userPoolId then (Inl (Error ''UserPoolId attribute is required''), w)
      else
        let tokenType = defaultTokenType tokenType;
            key = cacheKey username password region clientId userPoolId tokenType clientSecret;
            (token, w1) = getItem key w;
            (usable, w2) =
              (case token of
                 None \<Rightarrow> (False, w1)
               | Some t \<Rightarrow> if t = [] then (False, w1) else validToken L t w1)
        in
          if usable then
            (case token of
               None \<Rightarrow> (Inl TypeError, w2)
             | Some t \<Rightarrow>
                 (case jwtDecode L t of
                    None \<Rightarrow> (Inl InvalidTokenError, w2)
                  | Some data \<Rightarrow>
                      (case getProp data ''error'' of
                         Inl e \<Rightarrow> (Inl e, w2)
                       | Inr err \<Rightarrow>
                           (case err of
                              None \<Rightarrow> (Inr (JStr t), w2)
                            | Some v \<Rightarrow>
                                if truthy_json (Some v) then (Inr v, w2)
                                else (Inr (JStr t), w2)))))
          else
            (case cognitoAuth L
                    \<lparr>Username = username, Password = password, Region = region,
                     ClientId = clientId, UserPoolId = userPoolId, TokenType = tokenType,
                     ClientSecret = clientSecret\<rparr> w2 of
               (Inr token', w3) \<Rightarrow> (Inr (JStr token'), setItem key token' w3)
             | (Inl message, w3) \<Rightarrow>
                 (let (token', w4) = errorToken L message w3
                  in (Inr (JStr message), setItem key token' w4))))"

section \<open>Separators inside the fields of a key\<close>

text \<open>\<open>has_sep s\<close>: the separator \<^verbatim>\<open>::\<close> occurs in \<open>s\<close>.\<close>

fun has_sep :: "string \<Rightarrow> bool" where
  "has_sep (a # b # r) = ((a = CHR '':'' \<and> b = CHR '':'') \<or> has_sep (b # r))"
| "has_sep [a] = False"
| "has_sep [] = False"

text \<open>\<open>ends_colon s\<close>: the last character of \<open>s\<close> is a colon.\<close>

definition ends_colon :: "string \<Rightarrow> bool" where
  "ends_colon s = (case rev s of [] \<Rightarrow> False | c # r \<Rightarrow> c = CHR '':'')"

section \<open>Example values\<close>

text \<open>
  Tokens as the libraries encode them. The header segment is that of
  \<^verbatim>\<open>{"alg":"HS256","typ":"JWT"}\<close>; the payload segments are those of
  \<^verbatim>\<open>{"exp":9999999999}\<close> (access and id token of the example user),
  \<^verbatim>\<open>{"exp":10}\<close>, \<^verbatim>\<open>null\<close>, \<^verbatim>\<open>{"exp":{"valueOf":1,"toString":2}}\<close>,
  \<^verbatim>\<open>{"exp":1000,"nbf":1000}\<close>, \<^verbatim>\<open>{"exp":1000,"nbf":1001}\<close>,
  \<^verbatim>\<open>{"error":"","exp":1060}\<close>,
  \<^verbatim>\<open>{"error":"Incorrect username or password.","exp":1060}\<close> and
  \<^verbatim>\<open>{"error":"user? pool>?","exp":1060}\<close>.
\<close>

definition tokAccess :: string where
  "tokAccess = ''eyJhbGciOiJIUzI1NiIsInR5cCI6IkpXVCJ9.eyJleHAiOjk5OTk5OTk5OTl9.c2ln''"

definition tokId :: string where
  "tokId = ''eyJhbGciOiJIUzI1NiIsInR5cCI6IkpXVCJ9.eyJleHAiOjk5OTk5OTk5OTl9.aWQ''"

definition tokExpired :: string where
  "tokExpired = ''eyJhbGciOiJIUzI1NiIsInR5cCI6IkpXVCJ9.eyJleHAiOjEwfQ.c2ln''"

definition tokNull :: string where
  "tokNull = ''eyJhbGciOiJIUzI1NiIsInR5cCI6IkpXVCJ9.bnVsbA''"

definition tokUnconvertible :: string where
  "tokUnconvertible =
     ''eyJhbGciOiJIUzI1NiIsInR5cCI6IkpXVCJ9.eyJleHAiOnsidmFsdWVPZiI6MSwidG9TdHJpbmciOjJ9fQ''"

definition tokNotYet :: string where
  "tokNotYet = ''eyJhbGciOiJIUzI1NiIsInR5cCI6IkpXVCJ9.eyJleHAiOjEwMDAsIm5iZiI6MTAwMX0''"

definition tokEmptyError :: string where
  "tokEmptyError = ''eyJhbGciOiJIUzI1NiIsInR5cCI6IkpXVCJ9.eyJlcnJvciI6IiIsImV4cCI6MTA2MH0''"

definition tokAt1000 :: string where
  "tokAt1000 = ''eyJhbGciOiJIUzI1NiIsInR5cCI6IkpXVCJ9.eyJleHAiOjEwMDAsIm5iZiI6MTAwMH0''"

definition tokError1060 :: string where
  "tokError1060 =
     ''eyJhbGciOiJIUzI1NiIsInR5cCI6IkpXVCJ9.eyJlcnJvciI6IkluY29ycmVjdCB1c2VybmFtZSBvciBwYXNzd29yZC4iLCJleHAiOjEwNjB9''"

definition tokQuery1060 :: string where
  "tokQuery1060 =
     ''eyJhbGciOiJIUzI1NiIsInR5cCI6IkpXVCJ9.eyJlcnJvciI6InVzZXI_IHBvb2w-PyIsImV4cCI6MTA2MH0''"

text \<open>
  The libraries at the values the examples use: \<open>jwtDecode\<close> on the tokens above,
  \<^verbatim>\<open>JSON.stringify\<close> and \<^verbatim>\<open>Base64.stringify\<close> on the header and on the three error
  payloads, and a user pool with the user \<^verbatim>\<open>alice\<close>, where the handshake of
  \<^verbatim>\<open>bob\<close> fails with an error whose message is empty. No example converts a string
  or an array to a number, and none reaches a value outside the tables.
\<close>

definition exampleDecode :: "string \<Rightarrow> json option" where
  "exampleDecode =
     map_of
       [(tokAccess, JObj [(''exp'', JNum 9999999999)]),
        (tokId, JObj [(''exp'', JNum 9999999999)]),
        (tokExpired, JObj [(''exp'', JNum 10)]),
        (tokNull, JNull),
        (tokUnconvertible, JObj [(''exp'', JObj [(''valueOf'', JNum 1), (''toString'', JNum 2)])]),
        (tokNotYet, JObj [(''exp'', JNum 1000), (''nbf'', JNum 1001)]),
        (tokEmptyError, JObj [(''error'', JStr []), (''exp'', JNum 1060)]),
        (tokAt1000, JObj [(''exp'', JNum 1000), (''nbf'', JNum 1000)]),
        (tokError1060,
         JObj [(''error'', JStr ''Incorrect username or password.''), (''exp'', JNum 1060)]),
        (tokQuery1060, JObj [(''error'', JStr ''user? pool>?''), (''exp'', JNum 1060)])]"

definition exampleStringify :: "json \<Rightarrow> string" where
  \<open>exampleStringify j =
     (if j = JObj [(''alg'', JStr ''HS256''), (''typ'', JStr ''JWT'')]
      then ''{"alg":"HS256","typ":"JWT"}''
      else if j = JObj [(''error'', JStr ''Incorrect username or password.''), (''exp'', JNum 1060)]
      then ''{"error":"Incorrect username or password.","exp":1060}''
      else if j = JObj [(''error'', JStr ''user? pool>?''), (''exp'', JNum 1060)]
      then ''{"error":"user? pool>?","exp":1060}''
      else if j = JObj [(''error'', JStr []), (''exp'', JNum 1060)]
      then ''{"error":"","exp":1060}''
      else [])\<close>

definition exampleBase64 :: "WordArray \<Rightarrow> string" where
  \<open>exampleBase64 b =
     (if b = ''{"alg":"HS256","typ":"JWT"}''
      then ''eyJhbGciOiJIUzI1NiIsInR5cCI6IkpXVCJ9''
      else if b = ''{"error":"Incorrect username or password.","exp":1060}''
      then ''eyJlcnJvciI6IkluY29ycmVjdCB1c2VybmFtZSBvciBwYXNzd29yZC4iLCJleHAiOjEwNjB9''
      else if b = ''{"error":"user? pool>?","exp":1060}''
      then ''eyJlcnJvciI6InVzZXI/IHBvb2w+PyIsImV4cCI6MTA2MH0=''
      else if b = ''{"error":"","exp":1060}''
      then ''eyJlcnJvciI6IiIsImV4cCI6MTA2MH0=''
      else [])\<close>

definition exampleAuth ::
  "string option \<Rightarrow> string option \<Rightarrow> string option \<Rightarrow> string option \<Rightarrow> string + session" where
  "exampleAuth pool client user pass =
     (if pool = Some ''us-east-1_Example'' \<and> client = Some ''client1'' \<and>
         user = Some ''alice'' \<and> pass = Some ''secret''
      then Inr \<lparr>getIdToken = tokId, getAccessToken = tokAccess\<rparr>
      else if user = Some ''bob'' then Inl []
      else Inl ''Incorrect username or password.'')"

definition exampleLib :: jslib where
  "exampleLib =
     \<lparr>jwtDecode = exampleDecode, coerce = (\<lambda>v. None), JSON_stringify = exampleStringify,
      Utf8_parse = (\<lambda>s. s), Base64_stringify = exampleBase64,
      authenticateUser = exampleAuth\<rparr>"

text \<open>A world with an empty store whose clock starts at 1000 s and gains a second a reading.\<close>

definition world0 :: world where
  "world0 = \<lparr>store = Map.empty, trace = [], clock = (\<lambda>n. 1000000 + 1000 * int n), reads = 0\<rparr>"

text \<open>The key of the example user's access token.\<close>

definition key0 :: string where
  "key0 = ''alice::secret::us-east-1::client1::us-east-1_Example::access::''"

text \<open>The key of the example user's id token, and the key of \<^verbatim>\<open>bob\<close>.\<close>

definition keyId :: string where
  "keyId = ''alice::secret::us-east-1::client1::us-east-1_Example::id::''"

definition keyBob :: string where
  "keyBob = ''bob::secret::us-east-1::client1::us-east-1_Example::access::''"

section \<open>Auxiliary facts\<close>

subsection \<open>The clock is read once by errorToken and once by validToken\<close>

lemma errorToken_eq:
  "errorToken L m w =
     (base64url L (Utf8_parse L (JSON_stringify L (JObj [(''alg'', JStr ''HS256''), (''typ'', JStr ''JWT'')])))
        @ ''.'' @
      base64url L (Utf8_parse L (JSON_stringify L
         (JObj [(''error'', JStr m), (''exp'', JNum (of_int (clock w (reads w)) / 1000 + 60))]))),
      w\<lparr>reads := Suc (reads w)\<rparr>)"
  by (simp add: errorToken_def Date_now_def)

lemma errorToken_fst_cong:
  "clock w (reads w) = clock w' (reads w') \<Longrightarrow> fst (errorToken L m w) = fst (errorToken L m w')"
  by (simp add: errorToken_eq)

lemma validToken_eq:
  "validToken L t w =
     ((case validToken_try L (of_int (clock w (reads w)) / 1000) t of Inl e \<Rightarrow> False | Inr b \<Rightarrow> b),
      w\<lparr>reads := Suc (reads w)\<rparr>)"
  by (simp add: validToken_def Date_now_def split: sum.splits)

subsection \<open>The comparisons of validToken, spelled out\<close>

lemma js_lt_eq:
  "js_lt L v now =
     (if ToPrimitive_throws v then Inl TypeError
      else Inr (\<exists>x. (case v of JNum x \<Rightarrow> Some x | JNull \<Rightarrow> Some 0
                         | JBool b \<Rightarrow> Some (if b then 1 else 0) | JStr s \<Rightarrow> coerce L v
                         | JArr xs \<Rightarrow> coerce L v | JObj kvs \<Rightarrow> None) = Some x \<and> x < now))"
  by (cases v) (auto simp: js_lt_def split: option.splits)

lemma js_gt_eq:
  "js_gt L v now =
     (if ToPrimitive_throws v then Inl TypeError
      else Inr (\<exists>x. (case v of JNum x \<Rightarrow> Some x | JNull \<Rightarrow> Some 0
                         | JBool b \<Rightarrow> Some (if b then 1 else 0) | JStr s \<Rightarrow> coerce L v
                         | JArr xs \<Rightarrow> coerce L v | JObj kvs \<Rightarrow> None) = Some x \<and> x > now))"
  by (cases v) (auto simp: js_gt_def split: option.splits)

lemma validToken_try_obj:
  "jwtDecode L token = Some (JObj claims) \<Longrightarrow>
   validToken_try L now token =
     (case (case map_of claims ''exp'' of None \<Rightarrow> Inr False | Some v \<Rightarrow> js_lt L v now) of
        Inl e \<Rightarrow> Inl e
      | Inr expired \<Rightarrow>
          if expired then Inr False
          else (case (case map_of claims ''nbf'' of None \<Rightarrow> Inr False | Some v \<Rightarrow> js_gt L v now) of
                  Inl e \<Rightarrow> Inl e
                | Inr early \<Rightarrow> if early then Inr False else Inr True))"
  by (simp add: validToken_try_def split: sum.splits)

subsection \<open>The segments of a token have no dot\<close>

lemma base64url_no_dot:
  assumes "CHR ''.'' \<notin> set (Base64_stringify L source)"
  shows "CHR ''.'' \<notin> set (base64url L source)"
proof -
  have "set (rev (dropWhile (\<lambda>c. c = CHR ''='') (rev (Base64_stringify L source))))
          \<subseteq> set (Base64_stringify L source)"
    using set_dropWhileD by fastforce
  with assms show ?thesis
    by (auto simp: base64url_def Let_def split: if_splits)
qed

subsection \<open>The two branches of run\<close>

text \<open>
  The branch taken when the store has nothing usable under the key: the entry is
  missing, is the empty string, or is rejected by \<open>validToken\<close>. \<open>n\<close> counts the
  readings of the clock made before the handshake: \<open>validToken\<close> is called only on a
  non-empty entry.
\<close>

lemma run_miss:
  assumes ok: "truthy username" "truthy password" "truthy region" "truthy clientId" "truthy userPoolId"
    and tt: "tt = defaultTokenType tokenType"
    and key: "key = cacheKey username password region clientId userPoolId tt clientSecret"
    and ad: "ad = \<lparr>Username = username, Password = password, Region = region,
                   ClientId = clientId, UserPoolId = userPoolId, TokenType = tt,
                   ClientSecret = clientSecret\<rparr>"
    and unusable: "case store w key of None \<Rightarrow> True | Some t \<Rightarrow> t = [] \<or> \<not> fst (validToken L t w)"
    and n: "n = reads w + (if truthy (store w key) then 1 else 0)"
  shows "run L w username password region clientId userPoolId tokenType clientSecret =
     (case authenticateUser L userPoolId clientId username password of
        Inr s \<Rightarrow>
          (let tok = (if tt = Some ''id'' then getIdToken s else getAccessToken s)
           in (Inr (JStr tok),
               w\<lparr>store := (store w)(key \<mapsto> tok),
                 trace := trace w @ [GetItem key, Authenticate ad, SetItem key tok],
                 reads := n\<rparr>))
      | Inl m \<Rightarrow>
          (let etok = fst (errorToken L m (w\<lparr>reads := n\<rparr>))
           in (Inr (JStr m),
               w\<lparr>store := (store w)(key \<mapsto> etok),
                 trace := trace w @ [GetItem key, Authenticate ad, SetItem key etok],
                 reads := Suc n\<rparr>)))"
proof (cases "store w key")
  case None
  with ok show ?thesis
    unfolding run_def key ad n tt
    by (simp add: getItem_def setItem_def cognitoAuth_def errorToken_eq Let_def split: sum.splits)
next
  case (Some t)
  show ?thesis
  proof (cases "t = []")
    case True
    with Some ok show ?thesis
      unfolding run_def key ad n tt
      by (simp add: getItem_def setItem_def cognitoAuth_def errorToken_eq Let_def split: sum.splits)
  next
    case False
    with Some unusable have nv: "\<not> fst (validToken L t w)" by simp
    then have nv': "\<not> (case validToken_try L (of_int (clock w (reads w)) / 1000) t of Inl e \<Rightarrow> False | Inr b \<Rightarrow> b)"
      by (simp add: validToken_eq)
    with Some False ok show ?thesis
      unfolding run_def key ad n tt
      by (simp add: getItem_def setItem_def cognitoAuth_def errorToken_eq validToken_eq Let_def split: sum.splits)
  qed
qed

text \<open>
  In that branch the entry plays no part: the call is the call in the world without
  the entry, once the clock has been read as often.
\<close>

lemma run_entry_removed:
  assumes ok: "truthy username" "truthy password" "truthy region" "truthy clientId" "truthy userPoolId"
    and key: "key = cacheKey username password region clientId userPoolId (defaultTokenType tokenType) clientSecret"
    and unusable: "case store w key of None \<Rightarrow> True | Some t \<Rightarrow> t = [] \<or> \<not> fst (validToken L t w)"
    and n: "n = reads w + (if truthy (store w key) then 1 else 0)"
  shows "run L w username password region clientId userPoolId tokenType clientSecret =
         run L (w\<lparr>store := (store w)(key := None), reads := n\<rparr>)
           username password region clientId userPoolId tokenType clientSecret"
proof -
  let ?w' = "w\<lparr>store := (store w)(key := None), reads := n\<rparr>"
  have u': "case store ?w' key of None \<Rightarrow> True | Some t \<Rightarrow> t = [] \<or> \<not> fst (validToken L t ?w')"
    by simp
  have n': "n = reads ?w' + (if truthy (store ?w' key) then 1 else 0)"
    by simp
  have e: "\<And>m. fst (errorToken L m (?w'\<lparr>reads := n\<rparr>)) = fst (errorToken L m (w\<lparr>reads := n\<rparr>))"
    by (rule errorToken_fst_cong) simp
  show ?thesis
    unfolding run_miss [OF ok refl key refl unusable n] run_miss [OF ok refl key refl u' n'] e
    by (simp add: Let_def split: sum.splits)
qed

text \<open>
  The branch taken on a non-empty entry that \<open>validToken\<close> accepts: the payload
  decodes, its \<^verbatim>\<open>error\<close> property can be read, and the call only reads the store.
\<close>

lemma run_hit:
  assumes ok: "truthy username" "truthy password" "truthy region" "truthy clientId" "truthy userPoolId"
    and key: "key = cacheKey username password region clientId userPoolId (defaultTokenType tokenType) clientSecret"
    and st: "store w key = Some t" "t \<noteq> []"
    and valid: "fst (validToken L t w)"
  shows "\<exists>data err. jwtDecode L t = Some data \<and> getProp data ''error'' = Inr err \<and>
     run L w username password region clientId userPoolId tokenType clientSecret =
       (Inr (case err of None \<Rightarrow> JStr t | Some v \<Rightarrow> if truthy_json (Some v) then v else JStr t),
        w\<lparr>trace := trace w @ [GetItem key], reads := Suc (reads w)\<rparr>)"
proof -
  from valid have v: "validToken_try L (of_int (clock w (reads w)) / 1000) t = Inr True"
    by (simp add: validToken_eq split: sum.splits)
  then obtain data where d: "jwtDecode L t = Some data"
    by (auto simp: validToken_try_def split: option.splits)
  with v obtain err where e: "getProp data ''error'' = Inr err"
    by (cases data) (auto simp: validToken_try_def)
  from ok st v d e have "run L w username password region clientId userPoolId tokenType clientSecret =
       (Inr (case err of None \<Rightarrow> JStr t | Some v \<Rightarrow> if truthy_json (Some v) then v else JStr t),
        w\<lparr>trace := trace w @ [GetItem key], reads := Suc (reads w)\<rparr>)"
    unfolding run_def key
    by (simp add: getItem_def validToken_eq Let_def split: option.splits)
  with d e show ?thesis by blast
qed

text \<open>
  The first thing a validated call does is to read the store under the key.
\<close>

lemma run_reads_key:
  assumes "truthy username" "truthy password" "truthy region" "truthy clientId" "truthy userPoolId"
  shows "\<exists>rest. trace (snd (run L w username password region clientId userPoolId tokenType clientSecret)) =
     trace w @ GetItem (cacheKey username password region clientId userPoolId
                          (defaultTokenType tokenType) clientSecret) # rest"
  using assms
  by (simp add: run_def getItem_def setItem_def cognitoAuth_def errorToken_eq validToken_eq Let_def
      split: option.splits sum.splits prod.splits)

subsection \<open>Splitting a key at its separators\<close>

lemma has_sep_iff: "has_sep s \<longleftrightarrow> (\<exists>p q. s = p @ ''::'' @ q)"
proof (induction s rule: has_sep.induct)
  case (1 a b r)
  show ?case
  proof
    assume "has_sep (a # b # r)"
    then consider "a = CHR '':''" "b = CHR '':''" | "has_sep (b # r)" by auto
    then show "\<exists>p q. a # b # r = p @ ''::'' @ q"
    proof cases
      case 1
      then have "a # b # r = [] @ ''::'' @ r" by simp
      then show ?thesis by blast
    next
      case 2
      with 1 obtain p q where "b # r = p @ ''::'' @ q" by blast
      then have "a # b # r = (a # p) @ ''::'' @ q" by simp
      then show ?thesis by blast
    qed
  next
    assume "\<exists>p q. a # b # r = p @ ''::'' @ q"
    then obtain p q where pq: "a # b # r = p @ ''::'' @ q" by blast
    show "has_sep (a # b # r)"
    proof (cases p)
      case Nil
      with pq show ?thesis by simp
    next
      case (Cons x p')
      with pq have "b # r = p' @ ''::'' @ q" by simp
      with 1 have "has_sep (b # r)" by blast
      then show ?thesis by simp
    qed
  qed
next
  case (2 a)
  show ?case by (auto simp: Cons_eq_append_conv)
next
  case 3
  show ?case by simp
qed

lemma has_sep_Cons: "\<not> has_sep (a # xs) \<Longrightarrow> \<not> has_sep xs"
  by (cases xs) auto

lemma ends_colon_Cons: "\<not> ends_colon (a # xs) \<Longrightarrow> \<not> ends_colon xs"
  by (cases "rev xs") (auto simp: ends_colon_def)

lemma sep_head:
  assumes "''::'' @ r = y @ ''::'' @ r'" "\<not> has_sep y" "\<not> ends_colon y"
  shows "y = [] \<and> r = r'"
proof (cases y)
  case Nil
  with assms show ?thesis by simp
next
  case (Cons a ys)
  note y = Cons
  show ?thesis
  proof (cases ys)
    case Nil
    with y assms show ?thesis by (simp add: ends_colon_def)
  next
    case (Cons b zs)
    with y assms show ?thesis by auto
  qed
qed

lemma split_sep_unique:
  "\<not> has_sep x \<Longrightarrow> \<not> ends_colon x \<Longrightarrow> \<not> has_sep y \<Longrightarrow> \<not> ends_colon y \<Longrightarrow>
   x @ ''::'' @ r = y @ ''::'' @ r' \<Longrightarrow> x = y \<and> r = r'"
proof (induction x arbitrary: y)
  case Nil
  then show ?case using sep_head [of r y r'] by simp
next
  case (Cons a xs)
  show ?case
  proof (cases y)
    case Nil
    with Cons.prems show ?thesis using sep_head [of r' "a # xs" r] by simp
  next
    case (Cons b ys)
    with Cons.prems have ab: "a = b" and rest: "xs @ ''::'' @ r = ys @ ''::'' @ r'" by simp_all
    from Cons.prems Cons have "\<not> has_sep xs" "\<not> ends_colon xs" "\<not> has_sep ys" "\<not> ends_colon ys"
      by (blast dest: has_sep_Cons ends_colon_Cons)+
    with Cons.IH [of ys] rest have "xs = ys \<and> r = r'" by blast
    with ab Cons show ?thesis by simp
  qed
qed

lemma cacheKey_unfold:
  "cacheKey u p r c up tt cs =
     fieldStr u @ ''::'' @ (fieldStr p @ ''::'' @ (fieldStr r @ ''::'' @ (fieldStr c @ ''::'' @
       (fieldStr up @ ''::'' @ (fieldStr tt @ ''::'' @ fieldStr cs)))))"
  by (simp add: cacheKey_def)

lemma cacheKey_inj:
  assumes nosep: "\<forall>f \<in> set [u, p, r, c, up, tt, cs, u', p', r', c', up', tt', cs']. \<not> has_sep (fieldStr f)"
    and noend: "\<forall>f \<in> set [u, p, r, c, up, tt, u', p', r', c', up', tt']. \<not> ends_colon (fieldStr f)"
    and eq: "cacheKey u p r c up tt cs = cacheKey u' p' r' c' up' tt' cs'"
  shows "fieldStr u = fieldStr u' \<and> fieldStr p = fieldStr p' \<and> fieldStr r = fieldStr r' \<and>
         fieldStr c = fieldStr c' \<and> fieldStr up = fieldStr up' \<and> fieldStr tt = fieldStr tt' \<and>
         fieldStr cs = fieldStr cs'"
proof -
  note e0 = eq [unfolded cacheKey_unfold]
  from nosep noend have 1: "\<not> has_sep (fieldStr u)" "\<not> ends_colon (fieldStr u)" "\<not> has_sep (fieldStr u')" "\<not> ends_colon (fieldStr u')" by simp_all
  from nosep noend have 2: "\<not> has_sep (fieldStr p)" "\<not> ends_colon (fieldStr p)" "\<not> has_sep (fieldStr p')" "\<not> ends_colon (fieldStr p')" by simp_all
  from nosep noend have 3: "\<not> has_sep (fieldStr r)" "\<not> ends_colon (fieldStr r)" "\<not> has_sep (fieldStr r')" "\<not> ends_colon (fieldStr r')" by simp_all
  from nosep noend have 4: "\<not> has_sep (fieldStr c)" "\<not> ends_colon (fieldStr c)" "\<not> has_sep (fieldStr c')" "\<not> ends_colon (fieldStr c')" by simp_all
  from nosep noend have 5: "\<not> has_sep (fieldStr up)" "\<not> ends_colon (fieldStr up)" "\<not> has_sep (fieldStr up')" "\<not> ends_colon (fieldStr up')" by simp_all
  from nosep noend have 6: "\<not> has_sep (fieldStr tt)" "\<not> ends_colon (fieldStr tt)" "\<not> has_sep (fieldStr tt')" "\<not> ends_colon (fieldStr tt')" by simp_all
  from split_sep_unique [OF 1 e0] have a1: "fieldStr u = fieldStr u'" and e1: "fieldStr p @ ''::'' @ (fieldStr r @ ''::'' @ (fieldStr c @ ''::'' @
       (fieldStr up @ ''::'' @ (fieldStr tt @ ''::'' @ fieldStr cs)))) = fieldStr p' @ ''::'' @ (fieldStr r' @ ''::'' @ (fieldStr c' @ ''::'' @
       (fieldStr up' @ ''::'' @ (fieldStr tt' @ ''::'' @ fieldStr cs'))))" by blast+
  from split_sep_unique [OF 2 e1] have a2: "fieldStr p = fieldStr p'" and e2: "fieldStr r @ ''::'' @ (fieldStr c @ ''::'' @
       (fieldStr up @ ''::'' @ (fieldStr tt @ ''::'' @ fieldStr cs))) = fieldStr r' @ ''::'' @ (fieldStr c' @ ''::'' @
       (fieldStr up' @ ''::'' @ (fieldStr tt' @ ''::'' @ fieldStr cs')))" by blast+
  from split_sep_unique [OF 3 e2] have a3: "fieldStr r = fieldStr r'" and e3: "fieldStr c @ ''::'' @
       (fieldStr up @ ''::'' @ (fieldStr tt @ ''::'' @ fieldStr cs)) = fieldStr c' @ ''::'' @
       (fieldStr up' @ ''::'' @ (fieldStr tt' @ ''::'' @ fieldStr cs'))" by blast+
  from split_sep_unique [OF 4 e3] have a4: "fieldStr c = fieldStr c'" and e4: "fieldStr up @ ''::'' @ (fieldStr tt @ ''::'' @ fieldStr cs) =
       fieldStr up' @ ''::'' @ (fieldStr tt' @ ''::'' @ fieldStr cs')" by blast+
  from split_sep_unique [OF 5 e4] have a5: "fieldStr up = fieldStr up'" and e5: "fieldStr tt @ ''::'' @ fieldStr cs =
       fieldStr tt' @ ''::'' @ fieldStr cs'" by blast+
  from split_sep_unique [OF 6 e5] have a6: "fieldStr tt = fieldStr tt'" and a7: "fieldStr cs = fieldStr cs'" by blast+
  from a1 a2 a3 a4 a5 a6 a7 show ?thesis by blast
qed

lemma defaultTokenType_Some: "\<exists>s. defaultTokenType tt = Some s \<and> s \<noteq> []"
  by (cases tt) (auto simp: defaultTokenType_def)

lemma cacheKey_tokenType:
  assumes "fieldStr tt \<noteq> fieldStr tt'"
  shows "cacheKey u p r c up tt cs \<noteq> cacheKey u p r c up tt' cs"
  using assms by (simp add: cacheKey_unfold)

lemma defaultTokenType_eq:
  "defaultTokenType tokenType =
     Some (case tokenType of None \<Rightarrow> ''access'' | Some t \<Rightarrow> if t = [] then ''access'' else t)"
  by (cases tokenType) (simp_all add: defaultTokenType_def)

lemma cacheKey_Some:
  "cacheKey (Some username) (Some password) (Some region) (Some clientId) (Some userPoolId)
     (Some tt) clientSecret =
   username @ ''::'' @ password @ ''::'' @ region @ ''::'' @ clientId @ ''::'' @ userPoolId @
     ''::'' @ tt @ ''::'' @ (case clientSecret of None \<Rightarrow> [] | Some s \<Rightarrow> s)"
  by (cases clientSecret) (simp_all add: cacheKey_def)

subsection \<open>The example values\<close>

lemmas example_defs =
  exampleLib_def exampleDecode_def exampleStringify_def exampleBase64_def exampleAuth_def
  world0_def key0_def tokAt1000_def tokAccess_def tokId_def tokExpired_def tokNull_def
  tokUnconvertible_def tokNotYet_def tokEmptyError_def tokError1060_def tokQuery1060_def

lemma key0_eq:
  "cacheKey (Some ''alice'') (Some ''secret'') (Some ''us-east-1'') (Some ''client1'')
     (Some ''us-east-1_Example'') (Some ''access'') None = key0"
  by (simp add: cacheKey_def key0_def)

lemma exampleAuth_alice:
  "authenticateUser exampleLib (Some ''us-east-1_Example'') (Some ''client1'') (Some ''alice'')
     (Some ''secret'') = Inr \<lparr>getIdToken = tokId, getAccessToken = tokAccess\<rparr>"
  by (simp add: exampleLib_def exampleAuth_def)

section \<open>The claims\<close>

subsection \<open>C1\<close>

text \<open>
  C1. For validated arguments, when the store holds nothing usable under the key (no
  entry, the empty string, or an entry \<open>validToken\<close> rejects) and the handshake fails
  with message \<open>m\<close>, \<open>run\<close> does not throw: it resolves with the string \<open>m\<close>, and the
  store then holds under the key the token \<open>errorToken\<close> builds from \<open>m\<close> at the next
  reading of the clock. The handshake received the seven fields, and the write of the
  sentinel is the only write.
\<close>

theorem C1_auth_failure_cached_message_returned:
  assumes "truthy username" "truthy password" "truthy region" "truthy clientId" "truthy userPoolId"
    and "tt = defaultTokenType tokenType"
    and "key = cacheKey username password region clientId userPoolId tt clientSecret"
    and "ad = \<lparr>Username = username, Password = password, Region = region,
                ClientId = clientId, UserPoolId = userPoolId, TokenType = tt,
                ClientSecret = clientSecret\<rparr>"
    and "case store w key of None \<Rightarrow> True | Some t \<Rightarrow> t = [] \<or> \<not> fst (validToken L t w)"
    and "authenticateUser L userPoolId clientId username password = Inl m"
    and "n = reads w + (if truthy (store w key) then 1 else 0)"
    and "sentinel = fst (errorToken L m (w\<lparr>reads := n\<rparr>))"
  shows "run L w username password region clientId userPoolId tokenType clientSecret =
     (Inr (JStr m),
      w\<lparr>store := (store w)(key \<mapsto> sentinel),
        trace := trace w @ [GetItem key, Authenticate ad, SetItem key sentinel],
        reads := Suc n\<rparr>)"
  using run_miss [OF assms(1-9) assms(11)] assms(10) assms(12) by (simp add: Let_def)

text \<open>
  A wrong password on an empty store: the message comes back, and the entry is the
  encoding of \<^verbatim>\<open>{"error":"Incorrect username or password.","exp":1060}\<close>.
\<close>

theorem C1_witness:
  "run exampleLib world0 (Some ''alice'') (Some ''wrong'') (Some ''us-east-1'') (Some ''client1'')
       (Some ''us-east-1_Example'') (Some ''access'') None =
     (Inr (JStr ''Incorrect username or password.''),
      world0\<lparr>store := [''alice::wrong::us-east-1::client1::us-east-1_Example::access::'' \<mapsto> tokError1060],
        trace := [GetItem ''alice::wrong::us-east-1::client1::us-east-1_Example::access::'',
                  Authenticate \<lparr>Username = Some ''alice'', Password = Some ''wrong'',
                    Region = Some ''us-east-1'', ClientId = Some ''client1'',
                    UserPoolId = Some ''us-east-1_Example'', TokenType = Some ''access'',
                    ClientSecret = None\<rparr>,
                  SetItem ''alice::wrong::us-east-1::client1::us-east-1_Example::access::'' tokError1060],
        reads := 1\<rparr>)"
proof -
  have k: "cacheKey (Some ''alice'') (Some ''wrong'') (Some ''us-east-1'') (Some ''client1'')
       (Some ''us-east-1_Example'') (Some ''access'') None =
       ''alice::wrong::us-east-1::client1::us-east-1_Example::access::''"
    by (simp add: cacheKey_def)
  have e: "fst (errorToken exampleLib ''Incorrect username or password.'' (world0\<lparr>reads := 0\<rparr>))
       = tokError1060"
    by (simp add: errorToken_eq base64url_def exampleLib_def exampleStringify_def
        exampleBase64_def world0_def tokError1060_def)
  have f: "authenticateUser exampleLib (Some ''us-east-1_Example'') (Some ''client1'')
       (Some ''alice'') (Some ''wrong'') = Inl ''Incorrect username or password.''"
    by (simp add: exampleLib_def exampleAuth_def)
  have s: "store world0 ''alice::wrong::us-east-1::client1::us-east-1_Example::access::'' = None"
    "reads world0 = 0" "trace world0 = []" "store world0 = Map.empty"
    by (simp_all add: world0_def)
  from C1_auth_failure_cached_message_returned [where L = exampleLib and w = world0
      and username = "Some ''alice''" and password = "Some ''wrong''"
      and region = "Some ''us-east-1''" and clientId = "Some ''client1''"
      and userPoolId = "Some ''us-east-1_Example''" and tokenType = "Some ''access''"
      and clientSecret = None and m = "''Incorrect username or password.''",
      OF _ _ _ _ _ refl refl refl _ f refl refl]
  show ?thesis
    by (simp add: defaultTokenType_def k e s)
qed

subsection \<open>C2\<close>

text \<open>
  C2 on the code, after a handshake that fails with an empty message. The first call
  finds no entry, resolves with the empty message and stores the sentinel, the encoding
  of \<^verbatim>\<open>{"error":"","exp":1060}\<close>. The second call, a second later, finds the
  sentinel non-empty and valid, makes no handshake and no write, and resolves with the
  sentinel token itself: the decoded payload has the property \<^verbatim>\<open>error\<close>, which C2
  says is returned, but \<open>run\<close> tests the property for truthiness and the empty
  message is falsy.
\<close>

theorem C2_empty_message_sentinel_returned_as_token:
  "run exampleLib world0 (Some ''bob'') (Some ''secret'') (Some ''us-east-1'') (Some ''client1'')
       (Some ''us-east-1_Example'') (Some ''access'') None =
     (Inr (JStr []),
      world0\<lparr>store := [keyBob \<mapsto> tokEmptyError],
        trace := [GetItem keyBob,
                  Authenticate \<lparr>Username = Some ''bob'', Password = Some ''secret'',
                    Region = Some ''us-east-1'', ClientId = Some ''client1'',
                    UserPoolId = Some ''us-east-1_Example'', TokenType = Some ''access'',
                    ClientSecret = None\<rparr>,
                  SetItem keyBob tokEmptyError],
        reads := 1\<rparr>)
   \<and> jwtDecode exampleLib tokEmptyError = Some (JObj [(''error'', JStr []), (''exp'', JNum 1060)])
   \<and> run exampleLib
       (world0\<lparr>store := [keyBob \<mapsto> tokEmptyError],
          trace := [GetItem keyBob,
                    Authenticate \<lparr>Username = Some ''bob'', Password = Some ''secret'',
                      Region = Some ''us-east-1'', ClientId = Some ''client1'',
                      UserPoolId = Some ''us-east-1_Example'', TokenType = Some ''access'',
                      ClientSecret = None\<rparr>,
                    SetItem keyBob tokEmptyError],
          reads := 1\<rparr>)
       (Some ''bob'') (Some ''secret'') (Some ''us-east-1'') (Some ''client1'')
       (Some ''us-east-1_Example'') (Some ''access'') None =
     (Inr (JStr tokEmptyError),
      world0\<lparr>store := [keyBob \<mapsto> tokEmptyError],
        trace := [GetItem keyBob,
                  Authenticate \<lparr>Username = Some ''bob'', Password = Some ''secret'',
                    Region = Some ''us-east-1'', ClientId = Some ''client1'',
                    UserPoolId = Some ''us-east-1_Example'', TokenType = Some ''access'',
                    ClientSecret = None\<rparr>,
                  SetItem keyBob tokEmptyError,
                  GetItem keyBob],
        reads := 2\<rparr>)"
proof -
  let ?ad = "\<lparr>Username = Some ''bob'', Password = Some ''secret'',
                    Region = Some ''us-east-1'', ClientId = Some ''client1'',
                    UserPoolId = Some ''us-east-1_Example'', TokenType = Some ''access'',
                    ClientSecret = None\<rparr>"
  let ?w1 = "world0\<lparr>store := [keyBob \<mapsto> tokEmptyError],
        trace := [GetItem keyBob, Authenticate ?ad, SetItem keyBob tokEmptyError],
        reads := 1\<rparr>"
  have k: "keyBob = cacheKey (Some ''bob'') (Some ''secret'') (Some ''us-east-1'') (Some ''client1'')
       (Some ''us-east-1_Example'') (Some ''access'') None"
    by (simp add: cacheKey_def keyBob_def)
  have k': "keyBob = cacheKey (Some ''bob'') (Some ''secret'') (Some ''us-east-1'') (Some ''client1'')
       (Some ''us-east-1_Example'') (defaultTokenType (Some ''access'')) None"
    by (simp add: cacheKey_def keyBob_def defaultTokenType_def)
  have tt: "Some ''access'' = defaultTokenType (Some ''access'')"
    by (simp add: defaultTokenType_def)
  have w: "store world0 = Map.empty" "reads world0 = 0" "trace world0 = []"
    by (simp_all add: world0_def)
  have f: "authenticateUser exampleLib (Some ''us-east-1_Example'') (Some ''client1'')
       (Some ''bob'') (Some ''secret'') = Inl []"
    by (simp add: exampleLib_def exampleAuth_def)
  have e: "fst (errorToken exampleLib [] (world0\<lparr>reads := 0\<rparr>)) = tokEmptyError"
    by (simp add: errorToken_eq base64url_def exampleLib_def exampleStringify_def
        exampleBase64_def world0_def tokEmptyError_def)
  have d: "jwtDecode exampleLib tokEmptyError = Some (JObj [(''error'', JStr []), (''exp'', JNum 1060)])"
    by (simp add: example_defs)
  have first: "run exampleLib world0 (Some ''bob'') (Some ''secret'') (Some ''us-east-1'') (Some ''client1'')
       (Some ''us-east-1_Example'') (Some ''access'') None = (Inr (JStr []), ?w1)"
    using run_miss [where L = exampleLib and w = world0 and n = 0 and clientSecret = None,
        OF _ _ _ _ _ tt k refl]
    by (simp add: w f e)
  have n: "tokEmptyError \<noteq> []"
    by (simp add: tokEmptyError_def)
  have v: "fst (validToken exampleLib tokEmptyError ?w1)"
    by (simp add: validToken_eq validToken_try_def d js_lt_def world0_def)
  have s: "store ?w1 keyBob = Some tokEmptyError"
    by simp
  from run_hit [where L = exampleLib and w = ?w1 and t = tokEmptyError and clientSecret = None,
      OF _ _ _ _ _ k' s n v]
  have second: "run exampleLib ?w1 (Some ''bob'') (Some ''secret'') (Some ''us-east-1'') (Some ''client1'')
       (Some ''us-east-1_Example'') (Some ''access'') None =
     (Inr (JStr tokEmptyError),
      world0\<lparr>store := [keyBob \<mapsto> tokEmptyError],
        trace := [GetItem keyBob, Authenticate ?ad, SetItem keyBob tokEmptyError, GetItem keyBob],
        reads := 2\<rparr>)"
    by (simp add: d)
  show ?thesis by (intro conjI) (rule first, rule d, rule second)
qed

subsection \<open>C3\<close>

text \<open>
  C3. For non-empty user name, password, region, client id and user pool id, the token
  type in force is the one supplied, or \<^verbatim>\<open>access\<close> when it is absent or empty, and the
  key is the seven fields joined by \<^verbatim>\<open>::\<close>. When the store holds no entry under the
  key, or a non-empty entry that \<open>validToken\<close> rejects, \<open>run\<close> makes the handshake
  with the seven fields, the token type being the one in force; when the handshake
  succeeds, \<open>run\<close> stores the token it gives (the id token for token type \<^verbatim>\<open>id\<close>, the
  access token otherwise) under the key and resolves with it. Whatever the handshake
  does, a rejected entry behaves as a missing one: the call equals the call in the world
  where the entry is removed and the clock has been read once, for the validity check.
\<close>

theorem C3_miss_or_invalid_authenticates:
  assumes "username \<noteq> []" "password \<noteq> []" "region \<noteq> []" "clientId \<noteq> []" "userPoolId \<noteq> []"
    and "tt = (case tokenType of None \<Rightarrow> ''access'' | Some t \<Rightarrow> if t = [] then ''access'' else t)"
    and "key = username @ ''::'' @ password @ ''::'' @ region @ ''::'' @ clientId @ ''::'' @
               userPoolId @ ''::'' @ tt @ ''::'' @ (case clientSecret of None \<Rightarrow> [] | Some s \<Rightarrow> s)"
    and "ad = \<lparr>Username = Some username, Password = Some password, Region = Some region,
                ClientId = Some clientId, UserPoolId = Some userPoolId, TokenType = Some tt,
                ClientSecret = clientSecret\<rparr>"
    and "store w key = None \<or> (\<exists>t. store w key = Some t \<and> t \<noteq> [] \<and> \<not> fst (validToken L t w))"
  shows "(\<forall>s tok. authenticateUser L (Some userPoolId) (Some clientId) (Some username)
                    (Some password) = Inr s \<and>
            tok = (if tt = ''id'' then getIdToken s else getAccessToken s) \<longrightarrow>
            run L w (Some username) (Some password) (Some region) (Some clientId)
                (Some userPoolId) tokenType clientSecret =
              (Inr (JStr tok),
               w\<lparr>store := (store w)(key \<mapsto> tok),
                 trace := trace w @ [GetItem key, Authenticate ad, SetItem key tok],
                 reads := reads w + (if store w key = None then 0 else 1)\<rparr>))
       \<and> run L w (Some username) (Some password) (Some region) (Some clientId)
             (Some userPoolId) tokenType clientSecret =
         run L (w\<lparr>store := (store w)(key := None),
                  reads := reads w + (if store w key = None then 0 else 1)\<rparr>)
           (Some username) (Some password) (Some region) (Some clientId)
           (Some userPoolId) tokenType clientSecret"
proof -
  have ok: "truthy (Some username)" "truthy (Some password)" "truthy (Some region)"
    "truthy (Some clientId)" "truthy (Some userPoolId)"
    using assms(1-5) by simp_all
  have tt: "Some tt = defaultTokenType tokenType"
    by (simp add: defaultTokenType_eq assms(6))
  have key: "key = cacheKey (Some username) (Some password) (Some region) (Some clientId)
                     (Some userPoolId) (Some tt) clientSecret"
    by (simp add: cacheKey_Some assms(7))
  from assms(9) have u: "case store w key of None \<Rightarrow> True | Some t \<Rightarrow> t = [] \<or> \<not> fst (validToken L t w)"
    by auto
  from assms(9) have n: "reads w + (if store w key = None then 0 else 1) =
      reads w + (if truthy (store w key) then 1 else 0)"
    by auto
  have a: "\<forall>s tok. authenticateUser L (Some userPoolId) (Some clientId) (Some username)
                    (Some password) = Inr s \<and>
            tok = (if tt = ''id'' then getIdToken s else getAccessToken s) \<longrightarrow>
            run L w (Some username) (Some password) (Some region) (Some clientId)
                (Some userPoolId) tokenType clientSecret =
              (Inr (JStr tok),
               w\<lparr>store := (store w)(key \<mapsto> tok),
                 trace := trace w @ [GetItem key, Authenticate ad, SetItem key tok],
                 reads := reads w + (if store w key = None then 0 else 1)\<rparr>)"
    unfolding run_miss [OF ok tt key assms(8) u n] by (simp add: Let_def)
  have b: "run L w (Some username) (Some password) (Some region) (Some clientId)
             (Some userPoolId) tokenType clientSecret =
         run L (w\<lparr>store := (store w)(key := None),
                  reads := reads w + (if store w key = None then 0 else 1)\<rparr>)
           (Some username) (Some password) (Some region) (Some clientId)
           (Some userPoolId) tokenType clientSecret"
    using ok key [unfolded tt] u n by (rule run_entry_removed)
  from a b show ?thesis by blast
qed

text \<open>
  A request for the id token on an expired entry (\<^verbatim>\<open>{"exp":10}\<close> at 1000 s): the
  handshake receives token type \<^verbatim>\<open>id\<close> and the entry is replaced by the id token, as
  in the world without the entry. A request without a token type on an empty store
  stores the access token under the key of \<^verbatim>\<open>access\<close>.
\<close>

theorem C3_witness:
  "run exampleLib (world0\<lparr>store := [keyId \<mapsto> tokExpired]\<rparr>) (Some ''alice'') (Some ''secret'')
       (Some ''us-east-1'') (Some ''client1'') (Some ''us-east-1_Example'') (Some ''id'') None =
     (Inr (JStr tokId),
      world0\<lparr>store := [keyId \<mapsto> tokId],
        trace := [GetItem keyId,
                  Authenticate \<lparr>Username = Some ''alice'', Password = Some ''secret'',
                    Region = Some ''us-east-1'', ClientId = Some ''client1'',
                    UserPoolId = Some ''us-east-1_Example'', TokenType = Some ''id'',
                    ClientSecret = None\<rparr>,
                  SetItem keyId tokId],
        reads := 1\<rparr>)
   \<and> run exampleLib (world0\<lparr>store := [keyId \<mapsto> tokExpired]\<rparr>) (Some ''alice'') (Some ''secret'')
       (Some ''us-east-1'') (Some ''client1'') (Some ''us-east-1_Example'') (Some ''id'') None =
     run exampleLib (world0\<lparr>reads := 1\<rparr>) (Some ''alice'') (Some ''secret'')
       (Some ''us-east-1'') (Some ''client1'') (Some ''us-east-1_Example'') (Some ''id'') None
   \<and> run exampleLib world0 (Some ''alice'') (Some ''secret'')
       (Some ''us-east-1'') (Some ''client1'') (Some ''us-east-1_Example'') None None =
     (Inr (JStr tokAccess),
      world0\<lparr>store := [key0 \<mapsto> tokAccess],
        trace := [GetItem key0,
                  Authenticate \<lparr>Username = Some ''alice'', Password = Some ''secret'',
                    Region = Some ''us-east-1'', ClientId = Some ''client1'',
                    UserPoolId = Some ''us-east-1_Example'', TokenType = Some ''access'',
                    ClientSecret = None\<rparr>,
                  SetItem key0 tokAccess],
        reads := 0\<rparr>)"
proof -
  have d: "jwtDecode exampleLib tokExpired = Some (JObj [(''exp'', JNum 10)])"
    by (simp add: example_defs)
  have v: "\<not> fst (validToken exampleLib tokExpired (world0\<lparr>store := [keyId \<mapsto> tokExpired]\<rparr>))"
    by (simp add: validToken_eq validToken_try_def d js_lt_def world0_def)
  have n: "tokExpired \<noteq> []"
    by (simp add: tokExpired_def)
  have u: "store (world0\<lparr>store := [keyId \<mapsto> tokExpired]\<rparr>) keyId = None \<or>
     (\<exists>t. store (world0\<lparr>store := [keyId \<mapsto> tokExpired]\<rparr>) keyId = Some t \<and> t \<noteq> [] \<and>
          \<not> fst (validToken exampleLib t (world0\<lparr>store := [keyId \<mapsto> tokExpired]\<rparr>)))"
    using v n by simp
  have u0: "store world0 key0 = None \<or>
     (\<exists>t. store world0 key0 = Some t \<and> t \<noteq> [] \<and> \<not> fst (validToken exampleLib t world0))"
    by (simp add: world0_def)
  have w: "world0\<lparr>store := Map.empty\<rparr> = world0" "reads world0 = 0" "trace world0 = []"
    "store world0 = Map.empty"
    by (simp_all add: world0_def)
  have kid: "keyId = ''alice'' @ ''::'' @ ''secret'' @ ''::'' @ ''us-east-1'' @ ''::'' @ ''client1'' @ ''::'' @
               ''us-east-1_Example'' @ ''::'' @ ''id'' @ ''::'' @ (case None of None \<Rightarrow> [] | Some s \<Rightarrow> s)"
    by (simp add: keyId_def)
  have k0: "key0 = ''alice'' @ ''::'' @ ''secret'' @ ''::'' @ ''us-east-1'' @ ''::'' @ ''client1'' @ ''::'' @
               ''us-east-1_Example'' @ ''::'' @ ''access'' @ ''::'' @ (case None of None \<Rightarrow> [] | Some s \<Rightarrow> s)"
    by (simp add: key0_def)
  note th = C3_miss_or_invalid_authenticates [where L = exampleLib
      and w = "world0\<lparr>store := [keyId \<mapsto> tokExpired]\<rparr>" and tokenType = "Some ''id''"
      and tt = "''id''" and clientSecret = None, OF _ _ _ _ _ _ kid refl u]
  note th0 = C3_miss_or_invalid_authenticates [where L = exampleLib
      and w = world0 and tokenType = None
      and tt = "''access''" and clientSecret = None, OF _ _ _ _ _ _ k0 refl u0]
  have a: "run exampleLib (world0\<lparr>store := [keyId \<mapsto> tokExpired]\<rparr>) (Some ''alice'') (Some ''secret'')
       (Some ''us-east-1'') (Some ''client1'') (Some ''us-east-1_Example'') (Some ''id'') None =
     (Inr (JStr tokId),
      world0\<lparr>store := [keyId \<mapsto> tokId],
        trace := [GetItem keyId,
                  Authenticate \<lparr>Username = Some ''alice'', Password = Some ''secret'',
                    Region = Some ''us-east-1'', ClientId = Some ''client1'',
                    UserPoolId = Some ''us-east-1_Example'', TokenType = Some ''id'',
                    ClientSecret = None\<rparr>,
                  SetItem keyId tokId],
        reads := 1\<rparr>)"
    using th [THEN conjunct1] by (simp add: exampleAuth_alice w)
  have b: "run exampleLib (world0\<lparr>store := [keyId \<mapsto> tokExpired]\<rparr>) (Some ''alice'') (Some ''secret'')
       (Some ''us-east-1'') (Some ''client1'') (Some ''us-east-1_Example'') (Some ''id'') None =
     run exampleLib (world0\<lparr>reads := 1\<rparr>) (Some ''alice'') (Some ''secret'')
       (Some ''us-east-1'') (Some ''client1'') (Some ''us-east-1_Example'') (Some ''id'') None"
    using th [THEN conjunct2] by (simp add: w)
  have c: "run exampleLib world0 (Some ''alice'') (Some ''secret'')
       (Some ''us-east-1'') (Some ''client1'') (Some ''us-east-1_Example'') None None =
     (Inr (JStr tokAccess),
      world0\<lparr>store := [key0 \<mapsto> tokAccess],
        trace := [GetItem key0,
                  Authenticate \<lparr>Username = Some ''alice'', Password = Some ''secret'',
                    Region = Some ''us-east-1'', ClientId = Some ''client1'',
                    UserPoolId = Some ''us-east-1_Example'', TokenType = Some ''access'',
                    ClientSecret = None\<rparr>,
                  SetItem key0 tokAccess],
        reads := 0\<rparr>)"
    using th0 [THEN conjunct1] by (simp add: exampleAuth_alice w)
  show ?thesis by (intro conjI) (rule a, rule b, rule c)
qed

subsection \<open>C4\<close>

text \<open>
  C4, amended. \<open>validToken\<close> never throws: it reads the clock once and returns a
  boolean. It returns false exactly when \<open>jwtDecode\<close> throws, or the decoded payload is
  \<^verbatim>\<open>null\<close> (reading its \<^verbatim>\<open>exp\<close> then throws inside the same \<^verbatim>\<open>try\<close>), or the
  payload has an \<^verbatim>\<open>exp\<close> for which \<^verbatim>\<open>exp < now\<close> throws or holds, or it has an
  \<^verbatim>\<open>nbf\<close> for which \<^verbatim>\<open>nbf > now\<close> throws or holds; in every other case, a payload
  with neither property among them, it returns true. A comparison throws when the
  property cannot be converted to a primitive; otherwise it compares the number the
  property converts to, and is false when there is none.
\<close>

theorem C4_validToken_false_iff:
  "validToken L token w =
     (let now = of_int (clock w (reads w)) / 1000;
          number = (\<lambda>v. case v of JNum x \<Rightarrow> Some x | JNull \<Rightarrow> Some 0
                         | JBool b \<Rightarrow> Some (if b then 1 else 0) | JStr s \<Rightarrow> coerce L v
                         | JArr xs \<Rightarrow> coerce L v | JObj kvs \<Rightarrow> None)
      in (\<not> (case jwtDecode L token of
                None \<Rightarrow> True
              | Some data \<Rightarrow>
                  data = JNull \<or>
                  (\<exists>v. getProp data ''exp'' = Inr (Some v) \<and>
                       (ToPrimitive_throws v \<or> (\<exists>x. number v = Some x \<and> x < now))) \<or>
                  (\<exists>v. getProp data ''nbf'' = Inr (Some v) \<and>
                       (ToPrimitive_throws v \<or> (\<exists>x. number v = Some x \<and> x > now)))),
          w\<lparr>reads := Suc (reads w)\<rparr>))"
proof (cases "jwtDecode L token")
  case None
  then show ?thesis by (simp add: validToken_eq validToken_try_def)
next
  case (Some data)
  show ?thesis
  proof (cases "\<exists>claims. data = JObj claims")
    case True
    then obtain claims where d: "data = JObj claims" by blast
    show ?thesis
      unfolding validToken_eq validToken_try_obj [OF Some [unfolded d]] Let_def
      by (auto simp: Some d js_lt_eq js_gt_eq split: option.splits)
  next
    case False
    with Some show ?thesis
      by (cases data) (simp_all add: validToken_eq validToken_try_def)
  qed
qed

text \<open>
  An expired token, a token that does not decode and a token whose \<^verbatim>\<open>exp\<close> is
  \<^verbatim>\<open>{"valueOf":1,"toString":2}\<close> are invalid; a token that expires in the far future is
  valid.
\<close>

theorem C4_witness:
  "validToken exampleLib tokExpired world0 = (False, world0\<lparr>reads := 1\<rparr>)
   \<and> validToken exampleLib tokAccess world0 = (True, world0\<lparr>reads := 1\<rparr>)
   \<and> validToken exampleLib ''tok123'' world0 = (False, world0\<lparr>reads := 1\<rparr>)
   \<and> validToken exampleLib tokUnconvertible world0 = (False, world0\<lparr>reads := 1\<rparr>)"
  using C4_validToken_false_iff [where L = exampleLib and token = tokExpired and w = world0]
    C4_validToken_false_iff [where L = exampleLib and token = tokAccess and w = world0]
    C4_validToken_false_iff [where L = exampleLib and token = "''tok123''" and w = world0]
    C4_validToken_false_iff [where L = exampleLib and token = tokUnconvertible and w = world0]
  by (simp add: example_defs)

text \<open>
  C4 as stated fails on a token whose payload segment encodes \<^verbatim>\<open>null\<close>: the token
  decodes, the payload carries neither \<^verbatim>\<open>exp\<close> nor \<^verbatim>\<open>nbf\<close>, and \<open>validToken\<close>
  returns false.
\<close>

theorem C4_counterexample:
  "jwtDecode exampleLib tokNull = Some JNull
   \<and> validToken exampleLib tokNull world0 = (False, world0\<lparr>reads := 1\<rparr>)"
  by (simp add: validToken_eq validToken_try_def example_defs)

subsection \<open>C5\<close>

text \<open>
  C5. Called with a message when the clock reads \<open>now\<close> seconds, \<open>errorToken\<close> returns
  two segments joined by a dot: the encoded header and the encoding of the payload with
  \<^verbatim>\<open>error\<close> the message and \<^verbatim>\<open>exp\<close> equal to \<open>now + 60\<close>. For libraries whose
  Base64 alphabet has no dot the segments have none, so the token has exactly two; and
  for a decoder that inverts the encoding of this token, the decoded payload has that
  \<^verbatim>\<open>error\<close> and that \<^verbatim>\<open>exp\<close>, and \<open>validToken\<close> accepts the token when the clock
  reads \<open>now + 59\<close> and rejects it when the clock reads \<open>now + 61\<close>.
\<close>

theorem C5_errorToken_lives_sixty_seconds:
  assumes alphabet: "\<And>source. CHR ''.'' \<notin> set (Base64_stringify L source)"
    and now: "now = of_int (clock w (reads w)) / 1000"
    and header: "header = JObj [(''alg'', JStr ''HS256''), (''typ'', JStr ''JWT'')]"
    and payload: "payload = JObj [(''error'', JStr message), (''exp'', JNum (now + 60))]"
    and segments: "encodedHeader = base64url L (Utf8_parse L (JSON_stringify L header))"
      "encodedData = base64url L (Utf8_parse L (JSON_stringify L payload))"
    and roundtrip: "jwtDecode L (encodedHeader @ ''.'' @ encodedData) = Some payload"
    and at59: "of_int (clock w59 (reads w59)) / 1000 = now + 59"
    and at61: "of_int (clock w61 (reads w61)) / 1000 = now + 61"
  shows "fst (errorToken L message w) = encodedHeader @ ''.'' @ encodedData
       \<and> CHR ''.'' \<notin> set encodedHeader \<and> CHR ''.'' \<notin> set encodedData
       \<and> jwtDecode L (fst (errorToken L message w)) = Some payload
       \<and> getProp payload ''error'' = Inr (Some (JStr message))
       \<and> getProp payload ''exp'' = Inr (Some (JNum (now + 60)))
       \<and> fst (validToken L (fst (errorToken L message w)) w59)
       \<and> \<not> fst (validToken L (fst (errorToken L message w)) w61)"
proof -
  have tok: "fst (errorToken L message w) = encodedHeader @ ''.'' @ encodedData"
    by (simp add: errorToken_eq segments header payload now)
  have dots: "CHR ''.'' \<notin> set encodedHeader" "CHR ''.'' \<notin> set encodedData"
    unfolding segments by (rule base64url_no_dot, rule alphabet)+
  have dec: "jwtDecode L (fst (errorToken L message w)) = Some payload"
    using roundtrip by (simp add: tok)
  have props: "getProp payload ''error'' = Inr (Some (JStr message))"
    "getProp payload ''exp'' = Inr (Some (JNum (now + 60)))"
    by (simp_all add: payload)
  have v59: "fst (validToken L (fst (errorToken L message w)) w59)"
    using dec by (simp add: validToken_eq validToken_try_def at59 payload js_lt_def)
  have v61: "\<not> fst (validToken L (fst (errorToken L message w)) w61)"
    using dec by (simp add: validToken_eq validToken_try_def at61 payload js_lt_def)
  from tok dots dec props v59 v61 show ?thesis by blast
qed

text \<open>
  The message \<^verbatim>\<open>user? pool>?\<close> at 1000 s: the Base64 text of the payload ends in
  \<^verbatim>\<open>=\<close> and has a \<^verbatim>\<open>/\<close> and a \<^verbatim>\<open>+\<close>, which \<open>base64url\<close> strips and replaces.
\<close>

theorem C5_witness:
  "fst (errorToken exampleLib ''user? pool>?'' world0) = tokQuery1060
   \<and> jwtDecode exampleLib tokQuery1060 =
       Some (JObj [(''error'', JStr ''user? pool>?''), (''exp'', JNum 1060)])
   \<and> fst (validToken exampleLib tokQuery1060 (world0\<lparr>reads := 59\<rparr>))
   \<and> \<not> fst (validToken exampleLib tokQuery1060 (world0\<lparr>reads := 61\<rparr>))"
proof -
  have a: "\<And>source. CHR ''.'' \<notin> set (Base64_stringify exampleLib source)"
    by (simp add: exampleLib_def exampleBase64_def)
  have seg: "base64url exampleLib (Utf8_parse exampleLib (JSON_stringify exampleLib
               (JObj [(''alg'', JStr ''HS256''), (''typ'', JStr ''JWT'')]))) @ ''.'' @
             base64url exampleLib (Utf8_parse exampleLib (JSON_stringify exampleLib
               (JObj [(''error'', JStr ''user? pool>?''), (''exp'', JNum (1000 + 60))])))
             = tokQuery1060"
    by (simp add: base64url_def exampleLib_def exampleStringify_def exampleBase64_def
        tokQuery1060_def)
  have d: "jwtDecode exampleLib tokQuery1060 =
       Some (JObj [(''error'', JStr ''user? pool>?''), (''exp'', JNum (1000 + 60))])"
    by (simp add: example_defs)
  have n: "(1000 :: rat) = of_int (clock world0 (reads world0)) / 1000"
    by (simp add: world0_def)
  have t59: "of_int (clock (world0\<lparr>reads := 59\<rparr>) (reads (world0\<lparr>reads := 59\<rparr>))) / 1000 = (1000 :: rat) + 59"
    by (simp add: world0_def)
  have t61: "of_int (clock (world0\<lparr>reads := 61\<rparr>) (reads (world0\<lparr>reads := 61\<rparr>))) / 1000 = (1000 :: rat) + 61"
    by (simp add: world0_def)
  have rt: "jwtDecode exampleLib
       (base64url exampleLib (Utf8_parse exampleLib (JSON_stringify exampleLib
               (JObj [(''alg'', JStr ''HS256''), (''typ'', JStr ''JWT'')]))) @ ''.'' @
        base64url exampleLib (Utf8_parse exampleLib (JSON_stringify exampleLib
               (JObj [(''error'', JStr ''user? pool>?''), (''exp'', JNum (1000 + 60))]))))
       = Some (JObj [(''error'', JStr ''user? pool>?''), (''exp'', JNum (1000 + 60))])"
    unfolding seg by (rule d)
  note r = C5_errorToken_lives_sixty_seconds [OF a n refl refl refl refl rt t59 t61]
  from r seg have tok: "fst (errorToken exampleLib ''user? pool>?'' world0) = tokQuery1060"
    by simp
  from r d show ?thesis unfolding tok by simp
qed

subsection \<open>C6\<close>

text \<open>
  C6. For non-empty user name, password, region, client id and user pool id, the key is
  the seven fields joined by \<^verbatim>\<open>::\<close>, an absent client secret read as the empty string:
  whatever the libraries and the world, the call first reads the store under that key,
  with the token type supplied, or \<^verbatim>\<open>access\<close> when it is absent or empty. So equal
  fields give equal keys; keys that differ in their token type only are different; and
  two calls that differ only in the token types supplied read the store under different
  keys.
\<close>

theorem C6_cache_key_function_of_fields:
  assumes "username \<noteq> []" "password \<noteq> []" "region \<noteq> []" "clientId \<noteq> []" "userPoolId \<noteq> []"
    and "key = (\<lambda>tt. username @ ''::'' @ password @ ''::'' @ region @ ''::'' @ clientId @ ''::'' @
                  userPoolId @ ''::'' @ tt @ ''::'' @
                  (case clientSecret of None \<Rightarrow> [] | Some s \<Rightarrow> s))"
  shows "(\<exists>rest. trace (snd (run L w (Some username) (Some password) (Some region) (Some clientId)
                              (Some userPoolId) tokenType clientSecret)) =
            trace w @ GetItem (key (case tokenType of None \<Rightarrow> ''access''
                                    | Some t \<Rightarrow> if t = [] then ''access'' else t)) # rest)
       \<and> cacheKey (Some username) (Some password) (Some region) (Some clientId) (Some userPoolId)
           (Some tt) clientSecret = key tt
       \<and> (tt \<noteq> tt' \<longrightarrow> key tt \<noteq> key tt')
       \<and> (tt \<noteq> [] \<and> tt' \<noteq> [] \<and> tt \<noteq> tt' \<longrightarrow>
            (\<exists>k k' rest rest'.
               trace (snd (run L w (Some username) (Some password) (Some region) (Some clientId)
                             (Some userPoolId) (Some tt) clientSecret)) = trace w @ GetItem k # rest \<and>
               trace (snd (run L' w' (Some username) (Some password) (Some region) (Some clientId)
                             (Some userPoolId) (Some tt') clientSecret)) = trace w' @ GetItem k' # rest' \<and>
               k \<noteq> k'))"
proof -
  have ok: "truthy (Some username)" "truthy (Some password)" "truthy (Some region)"
    "truthy (Some clientId)" "truthy (Some userPoolId)"
    using assms(1-5) by simp_all
  have reads: "\<And>L w tokenType. \<exists>rest.
      trace (snd (run L w (Some username) (Some password) (Some region) (Some clientId)
                    (Some userPoolId) tokenType clientSecret)) =
      trace w @ GetItem (key (case tokenType of None \<Rightarrow> ''access''
                              | Some t \<Rightarrow> if t = [] then ''access'' else t)) # rest"
    using run_reads_key [OF ok] by (simp add: defaultTokenType_eq cacheKey_Some assms(6))
  have k: "cacheKey (Some username) (Some password) (Some region) (Some clientId) (Some userPoolId)
           (Some tt) clientSecret = key tt"
    by (simp add: cacheKey_Some assms(6))
  have inj: "\<And>a b. a \<noteq> b \<Longrightarrow> key a \<noteq> key b"
    by (simp add: assms(6))
  have two: "tt \<noteq> [] \<and> tt' \<noteq> [] \<and> tt \<noteq> tt' \<longrightarrow>
            (\<exists>k k' rest rest'.
               trace (snd (run L w (Some username) (Some password) (Some region) (Some clientId)
                             (Some userPoolId) (Some tt) clientSecret)) = trace w @ GetItem k # rest \<and>
               trace (snd (run L' w' (Some username) (Some password) (Some region) (Some clientId)
                             (Some userPoolId) (Some tt') clientSecret)) = trace w' @ GetItem k' # rest' \<and>
               k \<noteq> k')"
  proof
    assume h: "tt \<noteq> [] \<and> tt' \<noteq> [] \<and> tt \<noteq> tt'"
    from reads [of L w "Some tt"] h obtain rest where
      r: "trace (snd (run L w (Some username) (Some password) (Some region) (Some clientId)
                    (Some userPoolId) (Some tt) clientSecret)) = trace w @ GetItem (key tt) # rest"
      by auto
    from reads [of L' w' "Some tt'"] h obtain rest' where
      r': "trace (snd (run L' w' (Some username) (Some password) (Some region) (Some clientId)
                    (Some userPoolId) (Some tt') clientSecret)) = trace w' @ GetItem (key tt') # rest'"
      by auto
    from h have "key tt \<noteq> key tt'" by (simp add: inj)
    with r r' show "\<exists>k k' rest rest'.
               trace (snd (run L w (Some username) (Some password) (Some region) (Some clientId)
                             (Some userPoolId) (Some tt) clientSecret)) = trace w @ GetItem k # rest \<and>
               trace (snd (run L' w' (Some username) (Some password) (Some region) (Some clientId)
                             (Some userPoolId) (Some tt') clientSecret)) = trace w' @ GetItem k' # rest' \<and>
               k \<noteq> k'"
      by blast
  qed
  from reads [of L w tokenType] k inj [of tt tt'] two show ?thesis by blast
qed

text \<open>
  The example user: without a token type the store is read under the key of
  \<^verbatim>\<open>access\<close>, and the calls for \<^verbatim>\<open>id\<close> and for \<^verbatim>\<open>access\<close> read it under different
  keys.
\<close>

theorem C6_witness:
  "(\<exists>rest. trace (snd (run exampleLib world0 (Some ''alice'') (Some ''secret'') (Some ''us-east-1'')
          (Some ''client1'') (Some ''us-east-1_Example'') None None)) = GetItem key0 # rest)
   \<and> (\<exists>k k' rest rest'.
        trace (snd (run exampleLib world0 (Some ''alice'') (Some ''secret'') (Some ''us-east-1'')
          (Some ''client1'') (Some ''us-east-1_Example'') (Some ''id'') None)) = GetItem k # rest \<and>
        trace (snd (run exampleLib world0 (Some ''alice'') (Some ''secret'') (Some ''us-east-1'')
          (Some ''client1'') (Some ''us-east-1_Example'') (Some ''access'') None)) = GetItem k' # rest' \<and>
        k \<noteq> k')
   \<and> keyId \<noteq> key0"
proof -
  note th = C6_cache_key_function_of_fields [where username = "''alice''" and password = "''secret''"
      and region = "''us-east-1''" and clientId = "''client1''" and userPoolId = "''us-east-1_Example''"
      and clientSecret = None and L = exampleLib and w = world0 and L' = exampleLib and w' = world0
      and tt = "''id''" and tt' = "''access''", OF _ _ _ _ _ refl]
  have t: "trace world0 = []" by (simp add: world0_def)
  have a: "\<exists>rest. trace (snd (run exampleLib world0 (Some ''alice'') (Some ''secret'') (Some ''us-east-1'')
          (Some ''client1'') (Some ''us-east-1_Example'') None None)) = GetItem key0 # rest"
    using th [where tokenType = None, THEN conjunct1] by (simp add: t key0_def)
  have b: "\<exists>k k' rest rest'.
        trace (snd (run exampleLib world0 (Some ''alice'') (Some ''secret'') (Some ''us-east-1'')
          (Some ''client1'') (Some ''us-east-1_Example'') (Some ''id'') None)) = GetItem k # rest \<and>
        trace (snd (run exampleLib world0 (Some ''alice'') (Some ''secret'') (Some ''us-east-1'')
          (Some ''client1'') (Some ''us-east-1_Example'') (Some ''access'') None)) = GetItem k' # rest' \<and>
        k \<noteq> k'"
    using th [where tokenType = None, THEN conjunct2, THEN conjunct2, THEN conjunct2]
    by (simp add: t)
  have c: "keyId \<noteq> key0"
    using th [where tokenType = None, THEN conjunct2, THEN conjunct2, THEN conjunct1]
    by (simp add: keyId_def key0_def)
  show ?thesis by (intro conjI) (rule a, rule b, rule c)
qed

subsection \<open>C7\<close>

text \<open>
  C7. When one of user name, password, region, client id and user pool id is absent or
  empty, \<open>run\<close> throws an \<^verbatim>\<open>Error\<close> whose message names such a field, and the world is
  the one it started in: no reading of the store, no write, no handshake, no reading of
  the clock. When the five are present and the token type is absent or empty, the call
  is the call with token type \<^verbatim>\<open>access\<close>.
\<close>

theorem C7_validation_before_any_effect:
  "(\<not> truthy username \<or> \<not> truthy password \<or> \<not> truthy region \<or> \<not> truthy clientId \<or>
    \<not> truthy userPoolId \<longrightarrow>
      (\<exists>(name, v) \<in> set [(''Username'', username), (''Password'', password), (''Region'', region),
                            (''ClientId'', clientId), (''UserPoolId'', userPoolId)].
         \<not> truthy v \<and>
         run L w username password region clientId userPoolId tokenType clientSecret =
           (Inl (Error (name @ '' attribute is required'')), w)))
   \<and> (truthy username \<and> truthy password \<and> truthy region \<and> truthy clientId \<and> truthy userPoolId \<and>
      \<not> truthy tokenType \<longrightarrow>
        run L w username password region clientId userPoolId tokenType clientSecret =
        run L w username password region clientId userPoolId (Some ''access'') clientSecret)"
  by (simp add: run_def defaultTokenType_def)

text \<open>
  A call without a user name, and a call without a token type.
\<close>

theorem C7_witness:
  "run exampleLib world0 None (Some ''secret'') (Some ''us-east-1'') (Some ''client1'')
       (Some ''us-east-1_Example'') (Some ''access'') None =
     (Inl (Error ''Username attribute is required''), world0)
   \<and> run exampleLib world0 (Some ''alice'') (Some ''secret'') (Some ''us-east-1'') (Some ''client1'')
       (Some ''us-east-1_Example'') None None =
     run exampleLib world0 (Some ''alice'') (Some ''secret'') (Some ''us-east-1'') (Some ''client1'')
       (Some ''us-east-1_Example'') (Some ''access'') None"
  using C7_validation_before_any_effect [where username = None and password = "Some ''secret''"
      and region = "Some ''us-east-1''" and clientId = "Some ''client1''"
      and userPoolId = "Some ''us-east-1_Example''" and tokenType = "Some ''access''"
      and clientSecret = None and L = exampleLib and w = world0]
    C7_validation_before_any_effect [where username = "Some ''alice''" and password = "Some ''secret''"
      and region = "Some ''us-east-1''" and clientId = "Some ''client1''"
      and userPoolId = "Some ''us-east-1_Example''" and tokenType = None
      and clientSecret = None and L = exampleLib and w = world0]
  by simp

subsection \<open>C8\<close>

text \<open>
  C8. For validated arguments, when the store holds the empty string under the key,
  the call equals the call in the world without the entry, whatever the libraries would
  say of the empty string: \<open>validToken\<close> is not called on it, since the clock is read
  only by \<open>errorToken\<close> after a failed handshake, and the handshake is made.
\<close>

theorem C8_empty_string_is_a_miss:
  assumes "truthy username" "truthy password" "truthy region" "truthy clientId" "truthy userPoolId"
    and "tt = defaultTokenType tokenType"
    and "key = cacheKey username password region clientId userPoolId tt clientSecret"
    and "ad = \<lparr>Username = username, Password = password, Region = region,
                ClientId = clientId, UserPoolId = userPoolId, TokenType = tt,
                ClientSecret = clientSecret\<rparr>"
    and "store w key = Some []"
  shows "run L w username password region clientId userPoolId tokenType clientSecret =
         run L (w\<lparr>store := (store w)(key := None)\<rparr>)
           username password region clientId userPoolId tokenType clientSecret
       \<and> run L w username password region clientId userPoolId tokenType clientSecret =
         (case authenticateUser L userPoolId clientId username password of
            Inr s \<Rightarrow>
              (let tok = (if tt = Some ''id'' then getIdToken s else getAccessToken s)
               in (Inr (JStr tok),
                   w\<lparr>store := (store w)(key \<mapsto> tok),
                     trace := trace w @ [GetItem key, Authenticate ad, SetItem key tok]\<rparr>))
          | Inl m \<Rightarrow>
              (let sentinel = fst (errorToken L m w)
               in (Inr (JStr m),
                   w\<lparr>store := (store w)(key \<mapsto> sentinel),
                     trace := trace w @ [GetItem key, Authenticate ad, SetItem key sentinel],
                     reads := Suc (reads w)\<rparr>)))"
proof -
  from assms(9) have u: "case store w key of None \<Rightarrow> True | Some t \<Rightarrow> t = [] \<or> \<not> fst (validToken L t w)"
    by simp
  from assms(9) have n: "reads w = reads w + (if truthy (store w key) then 1 else 0)"
    by simp
  have a: "run L w username password region clientId userPoolId tokenType clientSecret =
         run L (w\<lparr>store := (store w)(key := None)\<rparr>)
           username password region clientId userPoolId tokenType clientSecret"
    using run_entry_removed [OF assms(1-5) assms(7) [unfolded assms(6)] u n] by simp
  have b: "run L w username password region clientId userPoolId tokenType clientSecret =
         (case authenticateUser L userPoolId clientId username password of
            Inr s \<Rightarrow>
              (let tok = (if tt = Some ''id'' then getIdToken s else getAccessToken s)
               in (Inr (JStr tok),
                   w\<lparr>store := (store w)(key \<mapsto> tok),
                     trace := trace w @ [GetItem key, Authenticate ad, SetItem key tok]\<rparr>))
          | Inl m \<Rightarrow>
              (let sentinel = fst (errorToken L m w)
               in (Inr (JStr m),
                   w\<lparr>store := (store w)(key \<mapsto> sentinel),
                     trace := trace w @ [GetItem key, Authenticate ad, SetItem key sentinel],
                     reads := Suc (reads w)\<rparr>)))"
    unfolding run_miss [OF assms(1-8) u n] by (simp add: Let_def split: sum.splits)
  from a b show ?thesis by blast
qed

text \<open>
  An empty entry is replaced by the access token of the handshake, and the clock has not
  been read.
\<close>

theorem C8_witness:
  "run exampleLib (world0\<lparr>store := [key0 \<mapsto> []]\<rparr>) (Some ''alice'') (Some ''secret'')
       (Some ''us-east-1'') (Some ''client1'') (Some ''us-east-1_Example'') (Some ''access'') None =
     (Inr (JStr tokAccess),
      world0\<lparr>store := [key0 \<mapsto> tokAccess],
        trace := [GetItem key0,
                  Authenticate \<lparr>Username = Some ''alice'', Password = Some ''secret'',
                    Region = Some ''us-east-1'', ClientId = Some ''client1'',
                    UserPoolId = Some ''us-east-1_Example'', TokenType = Some ''access'',
                    ClientSecret = None\<rparr>,
                  SetItem key0 tokAccess]\<rparr>)
   \<and> run exampleLib (world0\<lparr>store := [key0 \<mapsto> []]\<rparr>) (Some ''alice'') (Some ''secret'')
       (Some ''us-east-1'') (Some ''client1'') (Some ''us-east-1_Example'') (Some ''access'') None =
     run exampleLib world0 (Some ''alice'') (Some ''secret'')
       (Some ''us-east-1'') (Some ''client1'') (Some ''us-east-1_Example'') (Some ''access'') None
   \<and> reads (snd (run exampleLib (world0\<lparr>store := [key0 \<mapsto> []]\<rparr>) (Some ''alice'') (Some ''secret'')
       (Some ''us-east-1'') (Some ''client1'') (Some ''us-east-1_Example'') (Some ''access'') None)) = 0"
proof -
  have w: "world0\<lparr>store := Map.empty\<rparr> = world0" "reads world0 = 0" "trace world0 = []"
    by (simp_all add: world0_def)
  note th = C8_empty_string_is_a_miss [where L = exampleLib
      and w = "world0\<lparr>store := [key0 \<mapsto> []]\<rparr>" and username = "Some ''alice''"
      and password = "Some ''secret''" and region = "Some ''us-east-1''"
      and clientId = "Some ''client1''" and userPoolId = "Some ''us-east-1_Example''"
      and tokenType = "Some ''access''" and clientSecret = None and key = key0,
      OF _ _ _ _ _ refl _ refl]
  have a: "run exampleLib (world0\<lparr>store := [key0 \<mapsto> []]\<rparr>) (Some ''alice'') (Some ''secret'')
       (Some ''us-east-1'') (Some ''client1'') (Some ''us-east-1_Example'') (Some ''access'') None =
     (Inr (JStr tokAccess),
      world0\<lparr>store := [key0 \<mapsto> tokAccess],
        trace := [GetItem key0,
                  Authenticate \<lparr>Username = Some ''alice'', Password = Some ''secret'',
                    Region = Some ''us-east-1'', ClientId = Some ''client1'',
                    UserPoolId = Some ''us-east-1_Example'', TokenType = Some ''access'',
                    ClientSecret = None\<rparr>,
                  SetItem key0 tokAccess]\<rparr>)"
    using th [THEN conjunct2] by (simp add: defaultTokenType_def key0_eq exampleAuth_alice w)
  have b: "run exampleLib (world0\<lparr>store := [key0 \<mapsto> []]\<rparr>) (Some ''alice'') (Some ''secret'')
       (Some ''us-east-1'') (Some ''client1'') (Some ''us-east-1_Example'') (Some ''access'') None =
     run exampleLib world0 (Some ''alice'') (Some ''secret'')
       (Some ''us-east-1'') (Some ''client1'') (Some ''us-east-1_Example'') (Some ''access'') None"
    using th [THEN conjunct1] by (simp add: defaultTokenType_def key0_eq w)
  have c: "reads (snd (run exampleLib (world0\<lparr>store := [key0 \<mapsto> []]\<rparr>) (Some ''alice'') (Some ''secret'')
       (Some ''us-east-1'') (Some ''client1'') (Some ''us-east-1_Example'') (Some ''access'') None)) = 0"
    unfolding a by (simp add: w)
  show ?thesis by (intro conjI) (rule a, rule b, rule c)
qed

subsection \<open>C9\<close>

text \<open>
  C9, amended. The comparisons of \<open>validToken\<close> are strict: an \<^verbatim>\<open>exp\<close> equal to the
  current time does not expire the token, and an \<^verbatim>\<open>nbf\<close> equal to the current time
  does not defer it. A decoded object whose \<^verbatim>\<open>exp\<close> is the current time is accepted
  exactly when it has no \<^verbatim>\<open>nbf\<close>, or its \<^verbatim>\<open>nbf\<close> converts without throwing and not
  to a number greater than the current time; a decoded object whose \<^verbatim>\<open>nbf\<close> is the
  current time is accepted exactly when it has no \<^verbatim>\<open>exp\<close>, or its \<^verbatim>\<open>exp\<close> converts
  without throwing and not to a number less than the current time.
\<close>

theorem C9_strict_comparisons:
  assumes "jwtDecode L token = Some (JObj claims)"
    and "now = of_int (clock w (reads w)) / 1000"
    and "number = (\<lambda>v. case v of JNum x \<Rightarrow> Some x | JNull \<Rightarrow> Some 0
                       | JBool b \<Rightarrow> Some (if b then 1 else 0) | JStr s \<Rightarrow> coerce L v
                       | JArr xs \<Rightarrow> coerce L v | JObj kvs \<Rightarrow> None)"
  shows "(map_of claims ''exp'' = Some (JNum now) \<longrightarrow>
            fst (validToken L token w) =
              (case map_of claims ''nbf'' of
                 None \<Rightarrow> True
               | Some v \<Rightarrow> \<not> ToPrimitive_throws v \<and>
                   (case number v of None \<Rightarrow> True | Some y \<Rightarrow> y \<le> now)))
       \<and> (map_of claims ''nbf'' = Some (JNum now) \<longrightarrow>
            fst (validToken L token w) =
              (case map_of claims ''exp'' of
                 None \<Rightarrow> True
               | Some v \<Rightarrow> \<not> ToPrimitive_throws v \<and>
                   (case number v of None \<Rightarrow> True | Some x \<Rightarrow> now \<le> x)))"
  unfolding validToken_eq validToken_try_obj [OF assms(1)] assms(2) [symmetric] assms(3)
  by (auto simp: js_lt_eq js_gt_eq split: option.splits)

text \<open>
  The payload \<^verbatim>\<open>{"exp":1000,"nbf":1000}\<close> when the clock reads 1000 s.
\<close>

theorem C9_witness:
  "jwtDecode exampleLib tokAt1000 = Some (JObj [(''exp'', JNum 1000), (''nbf'', JNum 1000)])
   \<and> of_int (clock world0 (reads world0)) / 1000 = (1000 :: rat)
   \<and> fst (validToken exampleLib tokAt1000 world0)"
proof -
  have d: "jwtDecode exampleLib tokAt1000 = Some (JObj [(''exp'', JNum 1000), (''nbf'', JNum 1000)])"
    by (simp add: example_defs)
  have n: "(1000 :: rat) = of_int (clock world0 (reads world0)) / 1000"
    by (simp add: world0_def)
  from C9_strict_comparisons [OF d n refl] d n show ?thesis by simp
qed

text \<open>
  C9 as stated fails on a payload whose \<^verbatim>\<open>exp\<close> is the current time and whose
  \<^verbatim>\<open>nbf\<close> lies in the future: \<^verbatim>\<open>{"exp":1000,"nbf":1001}\<close> is rejected when the
  clock reads 1000 s.
\<close>

theorem C9_counterexample:
  "jwtDecode exampleLib tokNotYet = Some (JObj [(''exp'', JNum 1000), (''nbf'', JNum 1001)])
   \<and> of_int (clock world0 (reads world0)) / 1000 = (1000 :: rat)
   \<and> validToken exampleLib tokNotYet world0 = (False, world0\<lparr>reads := 1\<rparr>)"
  by (simp add: validToken_eq validToken_try_def js_lt_def js_gt_def example_defs)

subsection \<open>C10\<close>

text \<open>
  C10, amended. On fields that do not contain the separator, and of which the first
  six do not end with a colon, the key is injective: two keys are equal only if the
  seven fields, an absent one read as the empty string, are equal one by one.
\<close>

theorem C10_key_injective_without_trailing_colon:
  assumes "\<forall>f \<in> set [username, password, region, clientId, userPoolId, tokenType, clientSecret,
                       username', password', region', clientId', userPoolId', tokenType',
                       clientSecret']. \<not> has_sep (fieldStr f)"
    and "\<forall>f \<in> set [username, password, region, clientId, userPoolId, tokenType,
                     username', password', region', clientId', userPoolId', tokenType'].
           \<not> ends_colon (fieldStr f)"
    and "cacheKey username password region clientId userPoolId tokenType clientSecret =
         cacheKey username' password' region' clientId' userPoolId' tokenType' clientSecret'"
  shows "fieldStr username = fieldStr username' \<and> fieldStr password = fieldStr password' \<and>
         fieldStr region = fieldStr region' \<and> fieldStr clientId = fieldStr clientId' \<and>
         fieldStr userPoolId = fieldStr userPoolId' \<and> fieldStr tokenType = fieldStr tokenType' \<and>
         fieldStr clientSecret = fieldStr clientSecret'"
  using assms by (rule cacheKey_inj)

text \<open>
  An absent client secret and an empty one give the same key, and the same field.
\<close>

theorem C10_witness:
  "cacheKey (Some ''alice'') (Some ''secret'') (Some ''us-east-1'') (Some ''client1'')
       (Some ''us-east-1_Example'') (Some ''access'') None =
   cacheKey (Some ''alice'') (Some ''secret'') (Some ''us-east-1'') (Some ''client1'')
       (Some ''us-east-1_Example'') (Some ''access'') (Some [])
   \<and> fieldStr None = fieldStr (Some [])
   \<and> \<not> has_sep ''us-east-1_Example'' \<and> \<not> ends_colon ''us-east-1_Example''"
  using C10_key_injective_without_trailing_colon [where username = "Some ''alice''"
      and password = "Some ''secret''" and region = "Some ''us-east-1''"
      and clientId = "Some ''client1''" and userPoolId = "Some ''us-east-1_Example''"
      and tokenType = "Some ''access''" and clientSecret = None
      and username' = "Some ''alice''" and password' = "Some ''secret''"
      and region' = "Some ''us-east-1''" and clientId' = "Some ''client1''"
      and userPoolId' = "Some ''us-east-1_Example''" and tokenType' = "Some ''access''"
      and clientSecret' = "Some []"]
  by (simp add: cacheKey_def ends_colon_def)

text \<open>
  C10 as stated fails when a colon at the end of a field meets the separator: no field
  below contains \<^verbatim>\<open>::\<close>, user name and password differ, and the keys are equal.
\<close>

theorem C10_counterexample:
  "\<not> has_sep ''alice:'' \<and> \<not> has_sep ''secret'' \<and> \<not> has_sep ''alice'' \<and> \<not> has_sep '':secret'' \<and>
   \<not> has_sep ''us-east-1'' \<and> \<not> has_sep ''client1'' \<and> \<not> has_sep ''us-east-1_Example'' \<and>
   \<not> has_sep ''access'' \<and> \<not> has_sep (fieldStr None) \<and>
   cacheKey (Some ''alice:'') (Some ''secret'') (Some ''us-east-1'') (Some ''client1'')
       (Some ''us-east-1_Example'') (Some ''access'') None =
   cacheKey (Some ''alice'') (Some '':secret'') (Some ''us-east-1'') (Some ''client1'')
       (Some ''us-east-1_Example'') (Some ''access'') None \<and>
   fieldStr (Some ''alice:'') \<noteq> fieldStr (Some ''alice'') \<and>
   fieldStr (Some ''secret'') \<noteq> fieldStr (Some '':secret'')"
  by (simp add: cacheKey_def)

end
